theory Spec2Isabelle
  imports Main
begin

section \<open>Python values\<close>

text \<open>
  The provenance check lives in two files: \<^verbatim>\<open>src/utils/virustotal.py\<close> (artifact
  resolution, hashing, the reputation query) and \<^verbatim>\<open>UnifiedCLI._virustotal_scan\<close> in
  \<^verbatim>\<open>src/cli.py\<close> (the verdict and the operator prompts). Both are embedded here.

  An \<open>error\<close> stands for a raised Python exception that derives from \<^verbatim>\<open>Exception\<close>,
  which is what the handlers \<^verbatim>\<open>except Exception\<close> of the source catch. Signals that
  derive from \<^verbatim>\<open>BaseException\<close> only (a keyboard interrupt, a system exit) are not
  modelled.
\<close>

datatype error =
    FileNotFoundError | OSError | ValueError | TypeError | AttributeError
  | IndexError | EOFError | RequestException | JSONDecodeError

text \<open>
  What \<^verbatim>\<open>json.loads\<close> and \<^verbatim>\<open>resp.json()\<close> return. \<open>JNull\<close> is Python's \<^verbatim>\<open>None\<close>. A dict
  is an association list read with \<open>map_of\<close>. Numbers are integers: floating-point
  numbers are left out.
\<close>

datatype json =
    JNull | JBool bool | JInt int | JStr string
  | JList "json list" | JDict "(string \<times> json) list"

text \<open>Python truthiness, as used by \<^verbatim>\<open>if x\<close>, \<^verbatim>\<open>x and y\<close>, \<^verbatim>\<open>x or y\<close>.\<close>

fun truthy :: "json \<Rightarrow> bool" where
  "truthy JNull = False"
| "truthy (JBool b) = b"
| "truthy (JInt n) = (n \<noteq> 0)"
| "truthy (JStr s) = (s \<noteq> [])"
| "truthy (JList xs) = (xs \<noteq> [])"
| "truthy (JDict kv) = (kv \<noteq> [])"

definition py_or :: "json \<Rightarrow> json \<Rightarrow> json" where
  "py_or a b = (if truthy a then a else b)"

fun is_dict :: "json \<Rightarrow> bool" where
  "is_dict (JDict kv) = True"
| "is_dict _ = False"

definition dict_get :: "(string \<times> json) list \<Rightarrow> string \<Rightarrow> json \<Rightarrow> json" where
  "dict_get kv k dflt = (case map_of kv k of None \<Rightarrow> dflt | Some v \<Rightarrow> v)"

text \<open>
  \<^verbatim>\<open>x.get(k, dflt)\<close> on a value of unknown type: only a dict has the method, anything
  else raises \<^verbatim>\<open>AttributeError\<close>.
\<close>

fun py_get :: "json \<Rightarrow> string \<Rightarrow> json \<Rightarrow> error + json" where
  "py_get (JDict kv) k dflt = Inr (dict_get kv k dflt)"
| "py_get _ k dflt = Inl AttributeError"

text \<open>\<^verbatim>\<open>d.get(k)\<close> where the source has checked \<^verbatim>\<open>isinstance(d, dict)\<close> before.\<close>

fun item :: "json \<Rightarrow> string \<Rightarrow> json" where
  "item (JDict kv) k = dict_get kv k JNull"
| "item _ k = JNull"

text \<open>
  \<^verbatim>\<open>int(x)\<close>. The decimal syntax that \<^verbatim>\<open>int\<close> accepts for a string is a parameter
  (\<open>int_of_str\<close>), \<open>None\<close> where Python raises \<^verbatim>\<open>ValueError\<close>.
\<close>

fun py_int :: "(string \<Rightarrow> int option) \<Rightarrow> json \<Rightarrow> error + int" where
  "py_int p (JInt n) = Inr n"
| "py_int p (JBool b) = Inr (if b then 1 else 0)"
| "py_int p (JStr s) = (case p s of None \<Rightarrow> Inl ValueError | Some n \<Rightarrow> Inr n)"
| "py_int p _ = Inl TypeError"

section \<open>Python strings\<close>

text \<open>
  A \<open>string\<close> is a list of code points below 256. \<open>py_isspace\<close> and \<open>py_lower\<close> are
  \<^verbatim>\<open>str.isspace\<close> and \<^verbatim>\<open>str.lower\<close> on that range.
\<close>

definition py_isspace :: "char \<Rightarrow> bool" where
  "py_isspace c \<longleftrightarrow>
     (let n = (of_char c :: nat)
      in (9 \<le> n \<and> n \<le> 13) \<or> (28 \<le> n \<and> n \<le> 32) \<or> n = 133 \<or> n = 160)"

definition py_lower_char :: "char \<Rightarrow> char" where
  "py_lower_char c =
     (let n = (of_char c :: nat)
      in if (65 \<le> n \<and> n \<le> 90) \<or> (192 \<le> n \<and> n \<le> 222 \<and> n \<noteq> 215)
         then char_of (n + 32) else c)"

definition py_lower :: "string \<Rightarrow> string" where
  "py_lower s = map py_lower_char s"

definition py_lstrip :: "string \<Rightarrow> string" where
  "py_lstrip s = dropWhile py_isspace s"

definition py_rstrip :: "string \<Rightarrow> string" where
  "py_rstrip s = rev (dropWhile py_isspace (rev s))"

definition py_strip :: "string \<Rightarrow> string" where
  "py_strip s = py_rstrip (py_lstrip s)"

text \<open>\<^verbatim>\<open>s.rstrip('/')\<close>\<close>

definition rstrip_slash :: "string \<Rightarrow> string" where
  "rstrip_slash s = rev (dropWhile (\<lambda>c. c = CHR ''/'') (rev s))"

section \<open>Effects\<close>

text \<open>
  Every call that leaves the process is an event of the trace: the scratch directory,
  the subprocesses, the three HTTP requests (one constructor per call site), what is
  written and moved, what is printed and what is asked of the operator. The spinner
  thread of \<^verbatim>\<open>_virustotal_scan\<close> prints only and is left out.
\<close>

datatype message =
    MsgPreparing string string
  | MsgDownloadFailed
  | MsgCancelled
  | MsgProceedNoHash
  | MsgHash string
  | MsgQuerying
  | MsgStats int int int int
  | MsgMalicious string
  | MsgSuspicious int string
  | MsgProceedSuspicious
  | MsgClean
  | MsgVtError json json
  | MsgProceedError
  | MsgNoData
  | MsgSkipped error

datatype prompt = ProceedAnyway | InstallAnyway

datatype event =
    Mkdtemp string
  | Rmtree string bool
  | Run "string list"
  | GetLatest string
  | GetTarball string
  | GetVirusTotal string
  | SaveStream string
  | Move string string
  | Setenv string string
  | Print message
  | Input prompt

record proc =
  returncode :: int
  stdout :: string

record response =
  status_code :: int
  resp_text :: string
  body_json :: "error + json"

text \<open>
  The world answers every external call. \<open>read_sha256\<close> is the SHA-256 hex digest of a
  file's content, or the error of opening or reading it; \<open>save_stream\<close> is opening the
  target file and writing the response's chunks to it.
\<close>

record world =
  mkdtemp :: "error + string"
  rmtree :: "string \<Rightarrow> error + unit"
  run :: "string list \<Rightarrow> error + proc"
  listdir :: "string \<Rightarrow> error + string list"
  isfile :: "string \<Rightarrow> bool"
  getcwd :: "error + string"
  move :: "string \<Rightarrow> string \<Rightarrow> error + unit"
  save_stream :: "string \<Rightarrow> error + unit"
  read_sha256 :: "string \<Rightarrow> error + string"
  json_loads :: "string \<Rightarrow> error + json"
  get_latest :: "string \<Rightarrow> error + response"
  get_tarball :: "string \<Rightarrow> error + response"
  get_virustotal :: "string \<Rightarrow> string \<Rightarrow> error + response"
  environ_get :: "string \<Rightarrow> string option"
  input :: "prompt \<Rightarrow> error + string"
  quote :: "string \<Rightarrow> string"
  int_of_str :: "string \<Rightarrow> int option"

type_synonym 'a io = "event list \<times> (error + 'a)"

definition ret :: "'a \<Rightarrow> 'a io" where
  "ret x = ([], Inr x)"

definition lift :: "error + 'a \<Rightarrow> 'a io" where
  "lift r = ([], r)"

definition call :: "event \<Rightarrow> error + 'a \<Rightarrow> 'a io" where
  "call ev r = ([ev], r)"

definition emit :: "event \<Rightarrow> unit io" where
  "emit ev = ([ev], Inr ())"

definition and_then :: "'a io \<Rightarrow> ('a \<Rightarrow> 'b io) \<Rightarrow> 'b io" where
  "and_then m f =
     (case m of
        (t, Inl e) \<Rightarrow> (t, Inl e)
      | (t, Inr x) \<Rightarrow> (case f x of (t', r) \<Rightarrow> (t @ t', r)))"

text \<open>\<^verbatim>\<open>try: m  except Exception: return h\<close>\<close>

definition try_except :: "'a io \<Rightarrow> 'a \<Rightarrow> 'a io" where
  "try_except m h = (case m of (t, Inl e) \<Rightarrow> (t, Inr h) | (t, Inr x) \<Rightarrow> (t, Inr x))"

text \<open>
  \<^verbatim>\<open>try: m  finally: fin\<close>: the finaliser runs on every exit of \<open>m\<close>, the returning
  and the raising ones, and what \<open>m\<close> returned or raised stands unless the finaliser
  raises.
\<close>

definition try_finally :: "'a io \<Rightarrow> unit io \<Rightarrow> 'a io" where
  "try_finally m fin =
     (case m of (t, r) \<Rightarrow>
        (case fin of (t', Inl e) \<Rightarrow> (t @ t', Inl e) | (t', Inr u) \<Rightarrow> (t @ t', r)))"

text \<open>Truthiness of an \<^verbatim>\<open>Optional[str]\<close>: \<^verbatim>\<open>None\<close> and the empty string are false.\<close>

fun truthy_opt :: "string option \<Rightarrow> bool" where
  "truthy_opt None = False"
| "truthy_opt (Some s) = (s \<noteq> [])"

fun str_or :: "string option \<Rightarrow> string \<Rightarrow> string" where
  "str_or None d = d"
| "str_or (Some s) d = (if s \<noteq> [] then s else d)"

section \<open>Artifact resolution: \<^verbatim>\<open>src/utils/virustotal.py\<close>\<close>

text \<open>\<^verbatim>\<open>os.path.join(a, b)\<close> on POSIX.\<close>

definition path_join :: "string \<Rightarrow> string \<Rightarrow> string" where
  "path_join a b =
     (if b \<noteq> [] \<and> hd b = CHR ''/'' then b
      else if a = [] \<or> last a = CHR ''/'' then a @ b
      else a @ ''/'' @ b)"

definition calculate_file_hash :: "world \<Rightarrow> string \<Rightarrow> error + string" where
  "calculate_file_hash w file_path = read_sha256 w file_path"

text \<open>The loop of \<^verbatim>\<open>_download_pip_artifact\<close> over \<^verbatim>\<open>os.listdir(tmpdir)\<close>.\<close>

fun first_file_hash :: "world \<Rightarrow> string \<Rightarrow> string list \<Rightarrow> string option io" where
  "first_file_hash w tmpdir [] = ret None"
| "first_file_hash w tmpdir (fname # rest) =
     (let fpath = path_join tmpdir fname
      in if isfile w fpath
         then and_then (lift (calculate_file_hash w fpath)) (\<lambda>h. ret (Some h))
         else first_file_hash w tmpdir rest)"

definition download_pip_artifact :: "world \<Rightarrow> string \<Rightarrow> string \<Rightarrow> string option io" where
  "download_pip_artifact w package_name tmpdir =
     (let cmd = [''pip3'', ''download'', ''--no-deps'', package_name, ''-d'', tmpdir];
          cmd2 = [''python'', ''-m'', ''pip'', ''download'', ''--no-deps'', package_name, ''-d'', tmpdir]
      in and_then (call (Run cmd) (run w cmd)) (\<lambda>result.
         and_then (if returncode result \<noteq> 0
                   then and_then (call (Run cmd2) (run w cmd2)) (\<lambda>result2.
                        ret (returncode result2 \<noteq> 0))
                   else ret False) (\<lambda>failed.
         if failed then ret None
         else and_then (lift (listdir w tmpdir)) (\<lambda>names.
              first_file_hash w tmpdir names))))"

definition get_npm_registry :: "world \<Rightarrow> string io" where
  "get_npm_registry w =
     try_except
       (and_then (call (Run [''npm'', ''config'', ''get'', ''registry''])
                       (run w [''npm'', ''config'', ''get'', ''registry''])) (\<lambda>res.
        let reg = py_strip (stdout res)
        in if reg \<noteq> [] \<and> reg \<noteq> ''undefined''
           then ret (rstrip_slash reg @ ''/'')
           else ret ''https://registry.npmjs.org/''))
       ''https://registry.npmjs.org/''"

text \<open>
  \<^verbatim>\<open>_get_npm_metadata\<close> returns what \<^verbatim>\<open>json.loads\<close> gives, of any JSON type, or \<^verbatim>\<open>None\<close>,
  which is \<open>JNull\<close>.
\<close>

definition get_npm_metadata :: "world \<Rightarrow> string \<Rightarrow> json io" where
  "get_npm_metadata w package_name =
     try_except
       (and_then (call (Run [''npm'', ''view'', package_name, ''--json''])
                       (run w [''npm'', ''view'', package_name, ''--json''])) (\<lambda>res.
        if returncode res \<noteq> 0 \<or> py_strip (stdout res) = []
        then ret JNull
        else lift (json_loads w (stdout res))))
       JNull"

definition get_npm_latest_tarball_from_registry ::
  "world \<Rightarrow> string \<Rightarrow> string \<Rightarrow> string option io" where
  "get_npm_latest_tarball_from_registry w package_name registry =
     try_except
       (let encoded = quote w package_name;
            url = registry @ encoded @ ''/latest''
        in and_then (call (GetLatest url) (get_latest w url)) (\<lambda>r.
           if status_code r \<noteq> 200 then ret None
           else and_then (lift (body_json r)) (\<lambda>data.
                and_then (lift (py_get data ''dist'' JNull)) (\<lambda>dist.
                if is_dict dist
                then (case item dist ''tarball'' of
                        JStr tar \<Rightarrow> if tar \<noteq> [] then ret (Some tar) else ret None
                      | _ \<Rightarrow> ret None)
                else ret None))))
       None"

text \<open>
  \<^verbatim>\<open>scope, name = package_name.split('/', 1)\<close> raises \<^verbatim>\<open>ValueError\<close> when the name has
  no slash; \<^verbatim>\<open>scope[1:]\<close> drops the leading \<^verbatim>\<open>@\<close>.
\<close>

definition construct_npm_tarball_url :: "string \<Rightarrow> string \<Rightarrow> string \<Rightarrow> error + string" where
  "construct_npm_tarball_url package_name version registry =
     (if package_name \<noteq> [] \<and> hd package_name = CHR ''@''
      then (if CHR ''/'' \<in> set package_name
            then (let scope = takeWhile (\<lambda>c. c \<noteq> CHR ''/'') package_name;
                      name = tl (dropWhile (\<lambda>c. c \<noteq> CHR ''/'') package_name);
                      scope = tl scope
                  in Inr (registry @ scope @ ''/'' @ name @ ''/-/'' @ name @ ''-'' @ version @ ''.tgz''))
            else Inl ValueError)
      else Inr (registry @ package_name @ ''/-/'' @ package_name @ ''-'' @ version @ ''.tgz''))"

definition download_npm_tarball :: "world \<Rightarrow> string \<Rightarrow> string \<Rightarrow> string \<Rightarrow> string option io" where
  "download_npm_tarball w url tmpdir package_name =
     try_except
       (let tgz_path = path_join tmpdir (package_name @ ''.tgz'')
        in and_then (call (GetTarball url) (get_tarball w url)) (\<lambda>r.
           if status_code r \<noteq> 200 then ret None
           else and_then (call (SaveStream tgz_path) (save_stream w tgz_path)) (\<lambda>_.
                and_then (lift (calculate_file_hash w tgz_path)) (\<lambda>h. ret (Some h)))))
       None"

text \<open>\<^verbatim>\<open>str.splitlines\<close> on code points below 256, and \<^verbatim>\<open>xs[-1]\<close>.\<close>

definition is_linebreak :: "char \<Rightarrow> bool" where
  "is_linebreak c \<longleftrightarrow>
     (let n = (of_char c :: nat)
      in (10 \<le> n \<and> n \<le> 13) \<or> (28 \<le> n \<and> n \<le> 30) \<or> n = 133)"

fun splitlines_from :: "string \<Rightarrow> string \<Rightarrow> string list" where
  "splitlines_from cur [] = (if cur = [] then [] else [rev cur])"
| "splitlines_from cur [c] = (if is_linebreak c then [rev cur] else [rev (c # cur)])"
| "splitlines_from cur (c # d # cs) =
     (if c = CHR 0x0D \<and> d = CHR 0x0A then rev cur # splitlines_from [] cs
      else if is_linebreak c then rev cur # splitlines_from [] (d # cs)
      else splitlines_from (c # cur) (d # cs))"

definition splitlines :: "string \<Rightarrow> string list" where
  "splitlines s = splitlines_from [] s"

definition last_item :: "'a list \<Rightarrow> error + 'a" where
  "last_item xs = (if xs = [] then Inl IndexError else Inr (last xs))"

definition npm_pack_fallback :: "world \<Rightarrow> string \<Rightarrow> string \<Rightarrow> string option io" where
  "npm_pack_fallback w package_name tmpdir =
     try_except
       (and_then (call (Run [''npm'', ''pack'', package_name])
                       (run w [''npm'', ''pack'', package_name])) (\<lambda>res.
        if returncode res \<noteq> 0 \<or> py_strip (stdout res) = [] then ret None
        else and_then (lift (last_item (splitlines (py_strip (stdout res))))) (\<lambda>packed_name.
             and_then (lift (getcwd w)) (\<lambda>cwd.
             let src = path_join cwd packed_name
             in if \<not> isfile w src then ret None
                else (let dst = path_join tmpdir packed_name
                      in and_then (call (Move src dst) (move w src dst)) (\<lambda>_.
                         and_then (lift (calculate_file_hash w dst)) (\<lambda>h. ret (Some h))))))))
       None"

text \<open>Lines 174 to 181 of \<^verbatim>\<open>download_package_and_get_hash\<close>: the URL in \<^verbatim>\<open>npm view\<close>.\<close>

definition direct_tarball :: "json \<Rightarrow> string option" where
  "direct_tarball meta =
     (if is_dict meta
      then (let dist_obj = item meta ''dist''
            in if is_dict dist_obj
               then (case item dist_obj ''tarball'' of
                       JStr t \<Rightarrow> if t \<noteq> [] then Some t else None
                     | _ \<Rightarrow> None)
               else None)
      else None)"

text \<open>Lines 171 to 196: the npm branch, inside the \<^verbatim>\<open>try\<close>.\<close>

definition resolve_npm :: "world \<Rightarrow> string \<Rightarrow> string \<Rightarrow> string option io" where
  "resolve_npm w package_name tmpdir =
     and_then (get_npm_registry w) (\<lambda>registry.
     and_then (get_npm_metadata w package_name) (\<lambda>meta.
     and_then (if \<not> truthy_opt (direct_tarball meta)
               then get_npm_latest_tarball_from_registry w package_name registry
               else ret (direct_tarball meta)) (\<lambda>tarball_url.
     and_then (if \<not> truthy_opt tarball_url \<and> is_dict meta
               then (case item meta ''version'' of
                       JStr version \<Rightarrow>
                         if version \<noteq> []
                         then and_then (lift (construct_npm_tarball_url package_name version registry))
                                (\<lambda>u. ret (Some u))
                         else ret tarball_url
                     | _ \<Rightarrow> ret tarball_url)
               else ret tarball_url) (\<lambda>tarball_url.
     and_then (case tarball_url of
                 Some u \<Rightarrow> if u \<noteq> [] then download_npm_tarball w u tmpdir package_name
                           else ret None
               | None \<Rightarrow> ret None) (\<lambda>hash_val.
     if truthy_opt hash_val then ret hash_val
     else npm_pack_fallback w package_name tmpdir)))))"

text \<open>
  Lines 198 to 202: \<^verbatim>\<open>shutil.rmtree(tmpdir)\<close> with its error swallowed. The event records
  whether the directory was removed.
\<close>

definition cleanup :: "world \<Rightarrow> string \<Rightarrow> unit io" where
  "cleanup w tmpdir =
     try_except (call (Rmtree tmpdir (\<not> isl (rmtree w tmpdir))) (rmtree w tmpdir)) ()"

text \<open>Lines 168 to 197: the body of the \<^verbatim>\<open>try\<close>, given the scratch directory.\<close>

definition resolve_in :: "world \<Rightarrow> string \<Rightarrow> string \<Rightarrow> string \<Rightarrow> string option io" where
  "resolve_in w package_name manager tmpdir =
     (if manager = ''pip3'' then download_pip_artifact w package_name tmpdir
      else if manager = ''npm'' then resolve_npm w package_name tmpdir
      else ret None)"

text \<open>
  \<^verbatim>\<open>tempfile.mkdtemp\<close> is called before the \<^verbatim>\<open>try\<close>: when it raises, no directory exists
  and the exception leaves the function.
\<close>

definition download_package_and_get_hash :: "world \<Rightarrow> string \<Rightarrow> string \<Rightarrow> string option io" where
  "download_package_and_get_hash w package_name manager =
     and_then (case mkdtemp w of
                 Inl e \<Rightarrow> lift (Inl e)
               | Inr d \<Rightarrow> call (Mkdtemp d) (Inr d)) (\<lambda>tmpdir.
     try_finally (resolve_in w package_name manager tmpdir) (cleanup w tmpdir))"

section \<open>The reputation query\<close>

definition get_virustotal_api_key :: "world \<Rightarrow> string io" where
  "get_virustotal_api_key w =
     (if \<not> truthy_opt (environ_get w ''VT_API_KEY'')
      then (let key = ''020700591df72dd76c943a1306d9de7a984cf4afbd5b3f868c723cf64f2413db''
            in and_then (emit (Setenv ''VT_API_KEY'' key)) (\<lambda>_. ret key))
      else ret (str_or (environ_get w ''VT_API_KEY'') []))"

definition scan_file_hash_with_virustotal :: "world \<Rightarrow> string \<Rightarrow> string \<Rightarrow> json io" where
  "scan_file_hash_with_virustotal w file_hash api_key =
     (let url = ''https://www.virustotal.com/api/v3/files/'' @ file_hash
      in and_then (call (GetVirusTotal url) (get_virustotal w url api_key)) (\<lambda>resp.
         if status_code resp = 200 then lift (body_json resp)
         else ret (JDict [(''error'', JInt (status_code resp)),
                          (''message'', JStr (resp_text resp))])))"

section \<open>The verdict: \<^verbatim>\<open>_virustotal_scan\<close>, lines 148 to 193\<close>

text \<open>
  The three prompts of the scan (lines 135 to 140, 171 to 176 and 184 to 189) have one
  shape: \<^verbatim>\<open>choice = input(...).strip().lower()\<close>, then \<^verbatim>\<open>if choice != 'y'\<close> the
  cancellation is printed and the scan returns \<^verbatim>\<open>False\<close>, otherwise the message of the
  site is printed and it returns \<^verbatim>\<open>True\<close>.
\<close>

definition ask :: "world \<Rightarrow> prompt \<Rightarrow> message \<Rightarrow> bool io" where
  "ask w p proceed_msg =
     and_then (call (Input p) (input w p)) (\<lambda>answer.
       let choice = py_lower (py_strip answer)
       in if choice \<noteq> ''y''
          then and_then (emit (Print MsgCancelled)) (\<lambda>_. ret False)
          else and_then (emit (Print proceed_msg)) (\<lambda>_. ret True))"

text \<open>
  \<^verbatim>\<open>int(stats.get(k, 0)) if k in stats else 0\<close>. The source reaches it after
  \<^verbatim>\<open>stats.get('malicious', 0)\<close> has returned, so \<open>stats\<close> is a dict there.
\<close>

fun count_if_present :: "world \<Rightarrow> json \<Rightarrow> string \<Rightarrow> error + int" where
  "count_if_present w (JDict kv) k =
     (case map_of kv k of None \<Rightarrow> Inr 0 | Some v \<Rightarrow> py_int (int_of_str w) v)"
| "count_if_present w _ k = Inl TypeError"

definition int_of_get :: "world \<Rightarrow> json \<Rightarrow> string \<Rightarrow> error + int" where
  "int_of_get w stats k =
     (case py_get stats k (JInt 0) of Inl e \<Rightarrow> Inl e | Inr v \<Rightarrow> py_int (int_of_str w) v)"

definition virustotal_verdict :: "world \<Rightarrow> string \<Rightarrow> json \<Rightarrow> bool io" where
  "virustotal_verdict w package_name result =
     (if is_dict result \<and> truthy (item result ''data'') \<and> is_dict (item result ''data'')
      then
        and_then (lift (py_get (item result ''data'') ''attributes'' (JDict []))) (\<lambda>a.
        let attrs = py_or a (JDict []) in
        and_then (lift (py_get attrs ''last_analysis_stats'' (JDict []))) (\<lambda>s.
        let stats = py_or s (JDict []) in
        and_then (lift (int_of_get w stats ''malicious'')) (\<lambda>malicious.
        and_then (lift (count_if_present w stats ''undetected'')) (\<lambda>undetected.
        and_then (lift (count_if_present w stats ''suspicious'')) (\<lambda>suspicious.
        and_then (lift (count_if_present w stats ''harmless'')) (\<lambda>harmless.
        and_then (emit (Print (MsgStats malicious suspicious harmless undetected))) (\<lambda>_.
        if malicious > 0
        then and_then (emit (Print (MsgMalicious package_name))) (\<lambda>_. ret False)
        else if suspicious > 0
        then and_then (emit (Print (MsgSuspicious suspicious package_name))) (\<lambda>_.
             ask w InstallAnyway MsgProceedSuspicious)
        else and_then (emit (Print MsgClean)) (\<lambda>_. ret True))))))))
      else if is_dict result \<and> truthy (item result ''error'')
      then
        and_then (emit (Print (MsgVtError (item result ''error'') (item result ''message'')))) (\<lambda>_.
        ask w ProceedAnyway MsgProceedError)
      else and_then (emit (Print MsgNoData)) (\<lambda>_. ret True))"

section \<open>The scan: \<^verbatim>\<open>_virustotal_scan\<close>\<close>

text \<open>Lines 113 to 193, the body of the \<^verbatim>\<open>try\<close>.\<close>

definition scan_body :: "world \<Rightarrow> string \<Rightarrow> string option \<Rightarrow> bool io" where
  "scan_body w package_name manager_name =
     and_then (emit (Print (MsgPreparing package_name (str_or manager_name ''auto'')))) (\<lambda>_.
     and_then (download_package_and_get_hash w package_name (str_or manager_name ''pip3'')) (\<lambda>file_hash.
     if \<not> truthy_opt file_hash
     then and_then (emit (Print MsgDownloadFailed)) (\<lambda>_.
          ask w ProceedAnyway MsgProceedNoHash)
     else and_then (emit (Print (MsgHash (str_or file_hash [])))) (\<lambda>_.
          and_then (emit (Print MsgQuerying)) (\<lambda>_.
          and_then (get_virustotal_api_key w) (\<lambda>api_key.
          and_then (scan_file_hash_with_virustotal w (str_or file_hash []) api_key) (\<lambda>result.
          virustotal_verdict w package_name result))))))"

text \<open>
  Lines 112 and 194 to 196: whatever the body raises is reported and the scan returns
  \<^verbatim>\<open>True\<close>. The result is the trace and the boolean the install orchestrator reads.
\<close>

definition virustotal_scan :: "world \<Rightarrow> string \<Rightarrow> string option \<Rightarrow> event list \<times> bool" where
  "virustotal_scan w package_name manager_name =
     (case scan_body w package_name manager_name of
        (t, Inr proceed) \<Rightarrow> (t, proceed)
      | (t, Inl ex) \<Rightarrow> (t @ [Print (MsgSkipped ex)], True))"

section \<open>Reading a run\<close>

text \<open>
  The reputation response that reaches the verdict stage of a scan, when the scan gets
  that far: an artifact was hashed and the query returned.
\<close>

definition reputation :: "world \<Rightarrow> string \<Rightarrow> string option \<Rightarrow> json option" where
  "reputation w package_name manager_name =
     (case download_package_and_get_hash w package_name (str_or manager_name ''pip3'') of
        (t, Inl e) \<Rightarrow> None
      | (t, Inr file_hash) \<Rightarrow>
          if \<not> truthy_opt file_hash then None
          else (case get_virustotal_api_key w of
                  (t2, Inl e) \<Rightarrow> None
                | (t2, Inr api_key) \<Rightarrow>
                    (case scan_file_hash_with_virustotal w (str_or file_hash []) api_key of
                       (t3, Inl e) \<Rightarrow> None
                     | (t3, Inr result) \<Rightarrow> Some result)))"

text \<open>The resolver returned without an artifact hash (\<^verbatim>\<open>if not file_hash\<close>, line 133).\<close>

definition no_artifact :: "world \<Rightarrow> string \<Rightarrow> string option \<Rightarrow> bool" where
  "no_artifact w package_name manager_name =
     (case download_package_and_get_hash w package_name (str_or manager_name ''pip3'') of
        (t, Inl e) \<Rightarrow> False
      | (t, Inr file_hash) \<Rightarrow> \<not> truthy_opt file_hash)"

text \<open>
  The response shape \<open>Found\<close>: the payload holds the four integer counts under
  \<^verbatim>\<open>data.attributes.last_analysis_stats\<close>.
\<close>

definition found :: "json \<Rightarrow> int \<Rightarrow> int \<Rightarrow> int \<Rightarrow> int \<Rightarrow> bool" where
  "found result malicious suspicious harmless undetected \<longleftrightarrow>
     (let stats = item (item (item result ''data'') ''attributes'') ''last_analysis_stats''
      in item stats ''malicious'' = JInt malicious \<and>
         item stats ''suspicious'' = JInt suspicious \<and>
         item stats ''harmless'' = JInt harmless \<and>
         item stats ''undetected'' = JInt undetected)"

text \<open>What a trace shows: the prompts put to the operator, in order.\<close>

definition prompts :: "event list \<Rightarrow> prompt list" where
  "prompts t = concat (map (\<lambda>ev. case ev of Input p \<Rightarrow> [p] | _ \<Rightarrow> []) t)"

text \<open>The queries of the registry's latest-version endpoint and the tarball downloads.\<close>

definition latest_queries :: "event list \<Rightarrow> string list" where
  "latest_queries t = concat (map (\<lambda>ev. case ev of GetLatest url \<Rightarrow> [url] | _ \<Rightarrow> []) t)"

definition tarball_downloads :: "event list \<Rightarrow> string list" where
  "tarball_downloads t = concat (map (\<lambda>ev. case ev of GetTarball url \<Rightarrow> [url] | _ \<Rightarrow> []) t)"

text \<open>The subprocesses a trace starts, in order.\<close>

definition commands :: "event list \<Rightarrow> string list list" where
  "commands t = concat (map (\<lambda>ev. case ev of Run cmd \<Rightarrow> [cmd] | _ \<Rightarrow> []) t)"

text \<open>
  The scratch directories a trace creates, the removals it attempts, and the
  directories that exist at its end.
\<close>

definition created :: "event list \<Rightarrow> string list" where
  "created t = concat (map (\<lambda>ev. case ev of Mkdtemp d \<Rightarrow> [d] | _ \<Rightarrow> []) t)"

definition removals :: "event list \<Rightarrow> (string \<times> bool) list" where
  "removals t = concat (map (\<lambda>ev. case ev of Rmtree d ok \<Rightarrow> [(d, ok)] | _ \<Rightarrow> []) t)"

fun scratch_step :: "string list \<Rightarrow> event \<Rightarrow> string list" where
  "scratch_step ds (Mkdtemp d) = d # ds"
| "scratch_step ds (Rmtree d ok) = (if ok then removeAll d ds else ds)"
| "scratch_step ds _ = ds"

definition leftover :: "event list \<Rightarrow> string list" where
  "leftover t = foldl scratch_step [] t"

text \<open>The events of the resolver between creating and removing the scratch directory.\<close>

fun resolver_event :: "event \<Rightarrow> bool" where
  "resolver_event (Run cmd) = True"
| "resolver_event (GetLatest url) = True"
| "resolver_event (GetTarball url) = True"
| "resolver_event (SaveStream p) = True"
| "resolver_event (Move a b) = True"
| "resolver_event _ = False"

section \<open>Sample worlds\<close>

text \<open>
  A world in which \<^verbatim>\<open>pip3 download\<close> succeeds and leaves one file, the reputation
  service cannot be reached, and the operator answers \<^verbatim>\<open>y\<close>. The other samples change
  one answer of it.
\<close>

definition sample_world :: world where
  "sample_world =
     \<lparr> mkdtemp = Inr ''/tmp/pkgscan_a1'',
       rmtree = (\<lambda>d. Inr ()),
       run = (\<lambda>cmd. Inr \<lparr>returncode = 0, stdout = []\<rparr>),
       listdir = (\<lambda>d. Inr [''artifact.tar.gz'']),
       isfile = (\<lambda>p. True),
       getcwd = Inr ''/home/user'',
       move = (\<lambda>a b. Inr ()),
       save_stream = (\<lambda>p. Inr ()),
       read_sha256 = (\<lambda>p. Inr ''9f86d081884c7d65''),
       json_loads = (\<lambda>s. Inl JSONDecodeError),
       get_latest = (\<lambda>url. Inl RequestException),
       get_tarball = (\<lambda>url. Inl RequestException),
       get_virustotal = (\<lambda>url key. Inl RequestException),
       environ_get = (\<lambda>name. None),
       input = (\<lambda>p. Inr ''y''),
       quote = (\<lambda>s. s),
       int_of_str = (\<lambda>s. None) \<rparr>"

definition found_body :: "int \<Rightarrow> int \<Rightarrow> int \<Rightarrow> int \<Rightarrow> json" where
  "found_body m s h u =
     JDict [(''data'', JDict [(''id'', JStr ''9f86d081884c7d65''), (''attributes'',
        JDict [(''last_analysis_stats'',
          JDict [(''harmless'', JInt h), (''malicious'', JInt m),
                 (''suspicious'', JInt s), (''undetected'', JInt u)])])])]"

text \<open>The service answers 200 with the counts; the operator answers \<open>answer\<close>.\<close>

definition found_world :: "int \<Rightarrow> int \<Rightarrow> int \<Rightarrow> int \<Rightarrow> string \<Rightarrow> world" where
  "found_world m s h u answer =
     sample_world
       \<lparr> get_virustotal := (\<lambda>url key.
           Inr \<lparr>status_code = 200, resp_text = [], body_json = Inr (found_body m s h u)\<rparr>),
         input := (\<lambda>p. Inr answer) \<rparr>"

text \<open>The service answers with a status other than 200.\<close>

definition status_world :: "int \<Rightarrow> string \<Rightarrow> string \<Rightarrow> world" where
  "status_world code message answer =
     sample_world
       \<lparr> get_virustotal := (\<lambda>url key.
           Inr \<lparr>status_code = code, resp_text = message, body_json = Inl JSONDecodeError\<rparr>),
         input := (\<lambda>p. Inr answer) \<rparr>"

text \<open>Neither pip invocation succeeds: no artifact.\<close>

definition no_artifact_world :: "string \<Rightarrow> world" where
  "no_artifact_world answer =
     sample_world
       \<lparr> run := (\<lambda>cmd. Inr \<lparr>returncode = 1, stdout = []\<rparr>),
         input := (\<lambda>p. Inr answer) \<rparr>"

text \<open>
  \<^verbatim>\<open>pip3 download\<close> exits with status 1 and there is no \<^verbatim>\<open>python\<close> executable:
  \<^verbatim>\<open>subprocess.run\<close> raises \<^verbatim>\<open>FileNotFoundError\<close> for it.
\<close>

definition no_python_world :: world where
  "no_python_world =
     sample_world
       \<lparr> run := (\<lambda>cmd. if cmd \<noteq> [] \<and> hd cmd = ''python'' then Inl FileNotFoundError
                        else Inr \<lparr>returncode = 1, stdout = []\<rparr>) \<rparr>"

text \<open>Removing the scratch directory fails.\<close>

definition stuck_world :: world where
  "stuck_world = sample_world \<lparr> rmtree := (\<lambda>d. Inl OSError) \<rparr>"

text \<open>
  \<^verbatim>\<open>npm view\<close> answers with metadata that embeds \<^verbatim>\<open>dist.tarball\<close>; downloading that URL
  answers with \<open>code\<close>; \<^verbatim>\<open>npm pack\<close> fails.
\<close>

definition npm_world :: "int \<Rightarrow> world" where
  "npm_world code =
     sample_world
       \<lparr> run := (\<lambda>cmd. if cmd = [''npm'', ''view'', ''left-pad'', ''--json'']
                        then Inr \<lparr>returncode = 0, stdout = ''{}''\<rparr>
                        else Inr \<lparr>returncode = 1, stdout = []\<rparr>),
         json_loads := (\<lambda>s. Inr (JDict [(''version'', JStr ''1.3.0''),
                         (''dist'', JDict [(''tarball'',
                            JStr ''https://registry.npmjs.org/left-pad/-/left-pad-1.3.0.tgz'')])])),
         get_latest := (\<lambda>url. Inr \<lparr>status_code = 200, resp_text = [],
                         body_json = Inr (JDict [])\<rparr>),
         get_tarball := (\<lambda>url. Inr \<lparr>status_code = code, resp_text = [],
                         body_json = Inl JSONDecodeError\<rparr>) \<rparr>"

text \<open>No tool can be started: every \<^verbatim>\<open>subprocess.run\<close> raises \<^verbatim>\<open>FileNotFoundError\<close>.\<close>

definition no_tools_world :: world where
  "no_tools_world = sample_world \<lparr> run := (\<lambda>cmd. Inl FileNotFoundError) \<rparr>"

text \<open>The service answers 200 with a payload whose \<^verbatim>\<open>attributes\<close> is a list.\<close>

definition malformed_world :: world where
  "malformed_world =
     sample_world
       \<lparr> get_virustotal := (\<lambda>url key.
           Inr \<lparr>status_code = 200, resp_text = [],
                body_json = Inr (JDict [(''data'', JDict [(''attributes'', JList [JInt 1])])])\<rparr>) \<rparr>"

text \<open>No artifact, and the operator's input is closed: \<^verbatim>\<open>input\<close> raises \<^verbatim>\<open>EOFError\<close>.\<close>

definition eof_world :: world where
  "eof_world =
     sample_world
       \<lparr> run := (\<lambda>cmd. Inr \<lparr>returncode = 1, stdout = []\<rparr>),
         input := (\<lambda>p. Inl EOFError) \<rparr>"

text \<open>The events of the npm helpers that issue no HTTP request.\<close>

fun local_event :: "event \<Rightarrow> bool" where
  "local_event (Run cmd) = True"
| "local_event (Move a b) = True"
| "local_event _ = False"

section \<open>Traces of the resolver and of the scan\<close>

text \<open>
  The facts the results below share: which events each helper of the resolver can emit,
  the shape of the resolver's trace around the scratch directory, what the verdict stage
  does on a \<open>Found\<close> and on an error response, and how a scan is made from its stages.
\<close>

lemmas io_simps = ret_def lift_def call_def emit_def and_then_def try_except_def try_finally_def

lemma and_then_all:
  assumes "list_all P (fst m)" and "\<And>x. list_all P (fst (f x))"
  shows "list_all P (fst (and_then m f))"
proof (cases m)
  case (Pair t r)
  show ?thesis
  proof (cases r)
    case (Inl e)
    with Pair assms(1) show ?thesis by (simp add: and_then_def)
  next
    case (Inr x)
    obtain t' r' where f: "f x = (t', r')" by (cases "f x")
    with assms(2)[of x] have "list_all P t'" by simp
    with Pair Inr f assms(1) show ?thesis by (simp add: and_then_def)
  qed
qed

lemma try_except_all: "list_all P (fst m) \<Longrightarrow> list_all P (fst (try_except m h))"
  by (cases m; cases "snd m") (auto simp: try_except_def)

lemma ret_all: "list_all P (fst (ret x))"
  by (simp add: ret_def)

lemma lift_all: "list_all P (fst (lift x))"
  by (simp add: lift_def)

lemma call_all: "P ev \<Longrightarrow> list_all P (fst (call ev r))"
  by (simp add: call_def)

lemmas all_intros = and_then_all try_except_all ret_all lift_all call_all

lemma first_file_hash_events: "list_all resolver_event (fst (first_file_hash w d names))"
  by (induction names) (auto simp: Let_def intro!: all_intros)

lemma pip_events: "list_all resolver_event (fst (download_pip_artifact w p d))"
  unfolding download_pip_artifact_def Let_def
  by (auto intro!: all_intros first_file_hash_events)

lemma registry_events: "list_all resolver_event (fst (get_npm_registry w))"
  unfolding get_npm_registry_def Let_def
  by (auto intro!: all_intros)

lemma metadata_events: "list_all resolver_event (fst (get_npm_metadata w p))"
  unfolding get_npm_metadata_def Let_def
  by (auto intro!: all_intros)

lemma latest_events: "list_all resolver_event (fst (get_npm_latest_tarball_from_registry w p r))"
  unfolding get_npm_latest_tarball_from_registry_def Let_def
  by (auto intro!: all_intros split: json.splits)

lemma tarball_events: "list_all resolver_event (fst (download_npm_tarball w u d p))"
  unfolding download_npm_tarball_def Let_def
  by (auto intro!: all_intros)

lemma pack_events: "list_all resolver_event (fst (npm_pack_fallback w p d))"
  unfolding npm_pack_fallback_def Let_def
  by (auto intro!: all_intros)

lemma npm_events: "list_all resolver_event (fst (resolve_npm w p d))"
  unfolding resolve_npm_def
  by (auto intro!: all_intros registry_events metadata_events latest_events tarball_events pack_events
      split: json.splits option.splits)

lemma resolve_in_events: "list_all resolver_event (fst (resolve_in w p m d))"
  unfolding resolve_in_def by (auto intro!: pip_events npm_events ret_all)

lemma download_shape:
  "mkdtemp w = Inr d \<Longrightarrow>
   download_package_and_get_hash w p m =
     (Mkdtemp d # fst (resolve_in w p m d) @ [Rmtree d (\<not> isl (rmtree w d))],
      snd (resolve_in w p m d))"
  by (cases "resolve_in w p m d"; cases "rmtree w d")
     (simp_all add: download_package_and_get_hash_def cleanup_def io_simps)

lemma download_no_scratch:
  "mkdtemp w = Inl e \<Longrightarrow> download_package_and_get_hash w p m = ([], Inl e)"
  by (simp add: download_package_and_get_hash_def io_simps)

lemma resolver_prompts: "list_all resolver_event t \<Longrightarrow> prompts t = []"
  by (induction t) (auto simp: prompts_def elim: resolver_event.elims)

lemma resolver_created: "list_all resolver_event t \<Longrightarrow> created t = []"
  by (induction t) (auto simp: created_def elim: resolver_event.elims)

lemma resolver_removals: "list_all resolver_event t \<Longrightarrow> removals t = []"
  by (induction t) (auto simp: removals_def elim: resolver_event.elims)

lemma resolver_scratch: "list_all resolver_event t \<Longrightarrow> foldl scratch_step ds t = ds"
  by (induction t arbitrary: ds) (auto elim: resolver_event.elims)

lemma prompts_append: "prompts (a @ b) = prompts a @ prompts b"
  by (simp add: prompts_def)

lemma download_prompts: "prompts (fst (download_package_and_get_hash w p m)) = []"
proof (cases "mkdtemp w")
  case (Inl e)
  then show ?thesis by (simp add: download_no_scratch prompts_def)
next
  case (Inr d)
  have "prompts (fst (resolve_in w p m d)) = []"
    by (rule resolver_prompts[OF resolve_in_events])
  then show ?thesis
    by (simp add: download_shape[OF Inr] prompts_append) (simp add: prompts_def)
qed

lemma api_key_prompts: "prompts (fst (get_virustotal_api_key w)) = []"
  by (simp add: get_virustotal_api_key_def io_simps prompts_def Let_def)

lemma api_key_returns: "\<exists>key. snd (get_virustotal_api_key w) = Inr key"
  by (simp add: get_virustotal_api_key_def io_simps Let_def)

lemma query_prompts: "prompts (fst (scan_file_hash_with_virustotal w h k)) = []"
  by (cases "get_virustotal w (''https://www.virustotal.com/api/v3/files/'' @ h) k")
     (simp_all add: scan_file_hash_with_virustotal_def io_simps prompts_def)

lemma item_dict: "item x k = v \<Longrightarrow> v \<noteq> JNull \<Longrightarrow> \<exists>kv. x = JDict kv \<and> map_of kv k = Some v"
  by (cases x) (auto simp: dict_get_def split: option.splits)

lemma verdict_found:
  assumes "found result m s h u"
  shows "virustotal_verdict w pkg result =
     (if 0 < m then ([Print (MsgStats m s h u), Print (MsgMalicious pkg)], Inr False)
      else if 0 < s then
        ([Print (MsgStats m s h u), Print (MsgSuspicious s pkg)]
           @ fst (ask w InstallAnyway MsgProceedSuspicious),
         snd (ask w InstallAnyway MsgProceedSuspicious))
      else ([Print (MsgStats m s h u), Print MsgClean], Inr True))"
proof -
  let ?stats = "item (item (item result ''data'') ''attributes'') ''last_analysis_stats''"
  from assms have m: "item ?stats ''malicious'' = JInt m" and s: "item ?stats ''suspicious'' = JInt s"
    and h: "item ?stats ''harmless'' = JInt h" and u: "item ?stats ''undetected'' = JInt u"
    by (simp_all add: found_def Let_def)
  from item_dict[OF m] obtain st where st: "?stats = JDict st" "map_of st ''malicious'' = Some (JInt m)"
    by auto
  from item_dict[OF st(1)] obtain a where a: "item (item result ''data'') ''attributes'' = JDict a"
     "map_of a ''last_analysis_stats'' = Some (JDict st)" by auto
  from item_dict[OF a(1)] obtain d where d: "item result ''data'' = JDict d"
     "map_of d ''attributes'' = Some (JDict a)" by auto
  from item_dict[OF d(1)] obtain r where r: "result = JDict r"
     "map_of r ''data'' = Some (JDict d)" by auto
  have ne: "d \<noteq> []" "a \<noteq> []" "st \<noteq> []" using d(2) a(2) st(2) by auto
  from s st have s': "map_of st ''suspicious'' = Some (JInt s)"
    by (auto simp: dict_get_def split: option.splits)
  from h st have h': "map_of st ''harmless'' = Some (JInt h)"
    by (auto simp: dict_get_def split: option.splits)
  from u st have u': "map_of st ''undetected'' = Some (JInt u)"
    by (auto simp: dict_get_def split: option.splits)
  show ?thesis
    unfolding virustotal_verdict_def r
    using ne r(2) d(2) a(2) st(2) s' h' u'
    by (cases "ask w InstallAnyway MsgProceedSuspicious")
       (simp add: dict_get_def py_or_def int_of_get_def io_simps)
qed

lemma ask_answer:
  "input w p = Inr answer \<Longrightarrow>
   ask w p msg =
     (if py_lower (py_strip answer) = ''y'' then ([Input p, Print msg], Inr True)
      else ([Input p, Print MsgCancelled], Inr False))"
  by (simp add: ask_def io_simps Let_def)

lemma ask_error: "input w p = Inl e \<Longrightarrow> ask w p msg = ([Input p], Inl e)"
  by (simp add: ask_def io_simps)

lemma verdict_error:
  assumes "code \<noteq> 0"
  shows "virustotal_verdict w pkg (JDict [(''error'', JInt code), (''message'', JStr msg)]) =
     ([Print (MsgVtError (JInt code) (JStr msg))] @ fst (ask w ProceedAnyway MsgProceedError),
      snd (ask w ProceedAnyway MsgProceedError))"
  using assms
  by (cases "ask w ProceedAnyway MsgProceedError")
     (simp add: virustotal_verdict_def dict_get_def io_simps)

lemma scan_body_reputation:
  assumes "reputation w pkg mgr = Some result"
  shows "\<exists>pre. prompts pre = [] \<and>
           scan_body w pkg mgr =
             (pre @ fst (virustotal_verdict w pkg result), snd (virustotal_verdict w pkg result))"
proof -
  obtain t1 r1 where dl: "download_package_and_get_hash w pkg (str_or mgr ''pip3'') = (t1, r1)"
    by (cases "download_package_and_get_hash w pkg (str_or mgr ''pip3'')")
  obtain t2 r2 where ak: "get_virustotal_api_key w = (t2, r2)"
    by (cases "get_virustotal_api_key w")
  from assms dl obtain fh where r1: "r1 = Inr fh" and fh: "truthy_opt fh"
    by (auto simp: reputation_def split: sum.splits if_splits)
  from assms dl r1 fh ak obtain key where r2: "r2 = Inr key"
    by (auto simp: reputation_def split: sum.splits)
  obtain t3 r3 where q: "scan_file_hash_with_virustotal w (str_or fh []) key = (t3, r3)"
    by (cases "scan_file_hash_with_virustotal w (str_or fh []) key")
  from assms dl r1 fh ak r2 q have r3: "r3 = Inr result"
    by (auto simp: reputation_def split: sum.splits)
  obtain t4 r4 where v: "virustotal_verdict w pkg result = (t4, r4)"
    by (cases "virustotal_verdict w pkg result")
  let ?pre = "Print (MsgPreparing pkg (str_or mgr ''auto'')) # t1
                @ [Print (MsgHash (str_or fh [])), Print MsgQuerying] @ t2 @ t3"
  have "prompts t1 = []" using download_prompts[of w pkg "str_or mgr ''pip3''"] dl by simp
  moreover have "prompts t2 = []" using api_key_prompts[of w] ak by simp
  moreover have "prompts t3 = []" using query_prompts[of w "str_or fh []" key] q by simp
  ultimately have "prompts ?pre = []" by (simp add: prompts_def)
  moreover have "scan_body w pkg mgr = (?pre @ t4, r4)"
    by (simp add: scan_body_def dl r1 fh ak r2 q r3 v io_simps)
  ultimately show ?thesis using v by (intro exI[of _ ?pre]) simp
qed

lemma scan_body_no_artifact:
  assumes "no_artifact w pkg mgr"
  shows "\<exists>pre. prompts pre = [] \<and>
           scan_body w pkg mgr =
             (pre @ fst (ask w ProceedAnyway MsgProceedNoHash),
              snd (ask w ProceedAnyway MsgProceedNoHash))"
proof -
  obtain t1 r1 where dl: "download_package_and_get_hash w pkg (str_or mgr ''pip3'') = (t1, r1)"
    by (cases "download_package_and_get_hash w pkg (str_or mgr ''pip3'')")
  from assms dl obtain fh where r1: "r1 = Inr fh" and fh: "\<not> truthy_opt fh"
    by (auto simp: no_artifact_def split: sum.splits)
  obtain t4 r4 where v: "ask w ProceedAnyway MsgProceedNoHash = (t4, r4)"
    by (cases "ask w ProceedAnyway MsgProceedNoHash")
  let ?pre = "Print (MsgPreparing pkg (str_or mgr ''auto'')) # t1 @ [Print MsgDownloadFailed]"
  have "prompts t1 = []" using download_prompts[of w pkg "str_or mgr ''pip3''"] dl by simp
  then have "prompts ?pre = []" by (simp add: prompts_def)
  moreover have "scan_body w pkg mgr = (?pre @ t4, r4)"
    by (simp add: scan_body_def dl r1 fh v io_simps)
  ultimately show ?thesis using v by (intro exI[of _ ?pre]) simp
qed

lemma scan_snd:
  "snd (virustotal_scan w pkg mgr) = (case snd (scan_body w pkg mgr) of Inl ex \<Rightarrow> True | Inr b \<Rightarrow> b)"
  by (cases "scan_body w pkg mgr"; cases "snd (scan_body w pkg mgr)")
     (simp_all add: virustotal_scan_def)

lemma scan_fst:
  "fst (virustotal_scan w pkg mgr) =
     (case snd (scan_body w pkg mgr) of
        Inl ex \<Rightarrow> fst (scan_body w pkg mgr) @ [Print (MsgSkipped ex)]
      | Inr b \<Rightarrow> fst (scan_body w pkg mgr))"
  by (cases "scan_body w pkg mgr"; cases "snd (scan_body w pkg mgr)")
     (simp_all add: virustotal_scan_def)

lemma scan_of_body:
  "scan_body w pkg mgr = (t, Inr b) \<Longrightarrow> virustotal_scan w pkg mgr = (t, b)"
  "scan_body w pkg mgr = (t, Inl ex) \<Longrightarrow> virustotal_scan w pkg mgr = (t @ [Print (MsgSkipped ex)], True)"
  by (simp_all add: virustotal_scan_def)

lemmas run_defs = reputation_def no_artifact_def virustotal_scan_def scan_body_def
  download_package_and_get_hash_def resolve_in_def download_pip_artifact_def cleanup_def
  calculate_file_hash_def path_join_def get_virustotal_api_key_def
  scan_file_hash_with_virustotal_def found_world_def status_world_def no_artifact_world_def
  sample_world_def Let_def

lemma registry_local: "list_all local_event (fst (get_npm_registry w))"
  unfolding get_npm_registry_def Let_def
  by (auto intro!: all_intros)

lemma registry_returns: "\<exists>reg. snd (get_npm_registry w) = Inr reg"
  by (cases "run w [''npm'', ''config'', ''get'', ''registry'']")
     (simp_all add: get_npm_registry_def io_simps Let_def)

lemma metadata_local: "list_all local_event (fst (get_npm_metadata w p))"
  unfolding get_npm_metadata_def Let_def
  by (auto intro!: all_intros)

lemma pack_local: "list_all local_event (fst (npm_pack_fallback w p d))"
  unfolding npm_pack_fallback_def Let_def
  by (auto intro!: all_intros)

lemma local_latest: "list_all local_event t \<Longrightarrow> latest_queries t = []"
  by (induction t) (auto simp: latest_queries_def elim: local_event.elims)

lemma local_tarball: "list_all local_event t \<Longrightarrow> tarball_downloads t = []"
  by (induction t) (auto simp: tarball_downloads_def elim: local_event.elims)

lemma latest_queries_append: "latest_queries (a @ b) = latest_queries a @ latest_queries b"
  by (simp add: latest_queries_def)

lemma latest_queries_Nil: "latest_queries [] = []"
  by (simp add: latest_queries_def)

lemma tarball_downloads_append:
  "tarball_downloads (a @ b) = tarball_downloads a @ tarball_downloads b"
  by (simp add: tarball_downloads_def)

lemma tarball_downloads_Nil: "tarball_downloads [] = []"
  by (simp add: tarball_downloads_def)

lemma latest_queries_Cons:
  "latest_queries (ev # t) = (case ev of GetLatest url \<Rightarrow> [url] | _ \<Rightarrow> []) @ latest_queries t"
  by (simp add: latest_queries_def)

lemma tarball_downloads_Cons:
  "tarball_downloads (ev # t) =
     (case ev of GetTarball url \<Rightarrow> [url] | _ \<Rightarrow> []) @ tarball_downloads t"
  by (simp add: tarball_downloads_def)

lemmas observe_simps = latest_queries_append latest_queries_Nil latest_queries_Cons
  tarball_downloads_append tarball_downloads_Nil tarball_downloads_Cons

lemma tarball_trace:
  "\<exists>t hv. download_npm_tarball w url d p = (t, Inr hv)
          \<and> latest_queries t = [] \<and> tarball_downloads t = [url]"
  by (cases "get_tarball w url"; cases "save_stream w (path_join d (p @ ''.tgz''))";
      cases "calculate_file_hash w (path_join d (p @ ''.tgz''))")
     (simp_all add: download_npm_tarball_def io_simps Let_def latest_queries_def
        tarball_downloads_def)

lemma direct_tarball_embedded:
  "item (item meta ''dist'') ''tarball'' = JStr url \<Longrightarrow> url \<noteq> [] \<Longrightarrow>
   direct_tarball meta = Some url"
  by (cases meta; cases "item meta ''dist''") (simp_all add: direct_tarball_def Let_def)

lemma npm_direct_trace:
  assumes "snd (get_npm_metadata w pkg) = Inr meta"
    and "item (item meta ''dist'') ''tarball'' = JStr url"
    and "url \<noteq> []"
  shows "latest_queries (fst (resolve_npm w pkg d)) = []
         \<and> tarball_downloads (fst (resolve_npm w pkg d)) = [url]"
proof -
  obtain treg reg where reg: "get_npm_registry w = (treg, Inr reg)"
    using registry_returns[of w] by (cases "get_npm_registry w") auto
  have lreg: "list_all local_event treg" using registry_local[of w] reg by simp
  obtain tm where m: "get_npm_metadata w pkg = (tm, Inr meta)"
    using assms(1) by (cases "get_npm_metadata w pkg") auto
  have lm: "list_all local_event tm" using metadata_local[of w pkg] m by simp
  have dt: "direct_tarball meta = Some url"
    by (rule direct_tarball_embedded[OF assms(2,3)])
  obtain td hv where td: "download_npm_tarball w url d pkg = (td, Inr hv)"
    and tdl: "latest_queries td = []" and tdt: "tarball_downloads td = [url]"
    using tarball_trace[of w url d pkg] by blast
  obtain tp rp where p: "npm_pack_fallback w pkg d = (tp, rp)"
    by (cases "npm_pack_fallback w pkg d")
  have lp: "list_all local_event tp" using pack_local[of w pkg d] p by simp
  have "fst (resolve_npm w pkg d) = treg @ tm @ td @ (if truthy_opt hv then [] else tp)"
    using assms(3) by (simp add: resolve_npm_def reg m dt td p io_simps)
  moreover have "latest_queries (treg @ tm @ td @ (if truthy_opt hv then [] else tp)) = []"
    using local_latest[OF lreg] local_latest[OF lm] local_latest[OF lp] tdl
    by (simp add: latest_queries_append latest_queries_Nil)
  moreover have "tarball_downloads (treg @ tm @ td @ (if truthy_opt hv then [] else tp)) = [url]"
    using local_tarball[OF lreg] local_tarball[OF lm] local_tarball[OF lp] tdt
    by (simp add: tarball_downloads_append tarball_downloads_Nil)
  ultimately show ?thesis by simp
qed

lemma commands_append: "commands (a @ b) = commands a @ commands b"
  by (simp add: commands_def)

lemma commands_Nil: "commands [] = []"
  by (simp add: commands_def)

lemma commands_Cons:
  "commands (ev # t) = (case ev of Run cmd \<Rightarrow> [cmd] | _ \<Rightarrow> []) @ commands t"
  by (simp add: commands_def)

lemmas commands_simps = commands_append commands_Nil commands_Cons

lemma registry_commands:
  "commands (fst (get_npm_registry w)) = [[''npm'', ''config'', ''get'', ''registry'']]"
  by (cases "run w [''npm'', ''config'', ''get'', ''registry'']")
     (simp_all add: get_npm_registry_def io_simps Let_def commands_simps)

lemma metadata_commands:
  "commands (fst (get_npm_metadata w p)) = [[''npm'', ''view'', p, ''--json'']]"
  by (cases "run w [''npm'', ''view'', p, ''--json'']";
      cases "json_loads w (stdout (projr (run w [''npm'', ''view'', p, ''--json''])))")
     (simp_all add: get_npm_metadata_def io_simps Let_def commands_simps)

lemma tarball_commands: "commands (fst (download_npm_tarball w url d p)) = []"
  by (cases "get_tarball w url"; cases "save_stream w (path_join d (p @ ''.tgz''))";
      cases "calculate_file_hash w (path_join d (p @ ''.tgz''))")
     (simp_all add: download_npm_tarball_def io_simps Let_def commands_simps)

lemma pack_commands:
  "commands (fst (npm_pack_fallback w p d)) = [[''npm'', ''pack'', p]]"
  by (auto simp: npm_pack_fallback_def io_simps Let_def commands_simps
      split: sum.splits prod.splits)

lemma npm_direct_run:
  assumes "snd (get_npm_metadata w pkg) = Inr meta"
    and "item (item meta ''dist'') ''tarball'' = JStr url"
    and "url \<noteq> []"
    and "snd (download_npm_tarball w url d pkg) = Inr hv"
  shows "fst (resolve_npm w pkg d) =
           fst (get_npm_registry w) @ fst (get_npm_metadata w pkg)
             @ fst (download_npm_tarball w url d pkg)
             @ (if truthy_opt hv then [] else fst (npm_pack_fallback w pkg d))"
    and "snd (resolve_npm w pkg d) =
           (if truthy_opt hv then Inr hv else snd (npm_pack_fallback w pkg d))"
proof -
  obtain treg reg where reg: "get_npm_registry w = (treg, Inr reg)"
    using registry_returns[of w] by (cases "get_npm_registry w") auto
  obtain tm where m: "get_npm_metadata w pkg = (tm, Inr meta)"
    using assms(1) by (cases "get_npm_metadata w pkg") auto
  have dt: "direct_tarball meta = Some url"
    by (rule direct_tarball_embedded[OF assms(2,3)])
  obtain td where td: "download_npm_tarball w url d pkg = (td, Inr hv)"
    using assms(4) by (cases "download_npm_tarball w url d pkg") auto
  obtain tp rp where p: "npm_pack_fallback w pkg d = (tp, rp)"
    by (cases "npm_pack_fallback w pkg d")
  show "fst (resolve_npm w pkg d) =
           fst (get_npm_registry w) @ fst (get_npm_metadata w pkg)
             @ fst (download_npm_tarball w url d pkg)
             @ (if truthy_opt hv then [] else fst (npm_pack_fallback w pkg d))"
    using assms(3) by (simp add: resolve_npm_def reg m dt td p io_simps)
  show "snd (resolve_npm w pkg d) =
           (if truthy_opt hv then Inr hv else snd (npm_pack_fallback w pkg d))"
    using assms(3) by (simp add: resolve_npm_def reg m dt td p io_simps)
qed

section \<open>The verdicts\<close>

text \<open>
  C1: a response of shape \<open>Found\<close> with a positive malicious count is blocked whatever
  the suspicious, harmless and undetected counts are: the verdict stage prints the
  statistics and the MALICIOUS message and returns \<^verbatim>\<open>False\<close>, and asks nothing. The test on
  \<open>malicious\<close> comes before the one on \<open>suspicious\<close>, so one malicious and five suspicious
  detections block rather than warn.
\<close>

theorem malicious_blocks:
  "found result m s h u \<Longrightarrow> 0 < m \<Longrightarrow>
   virustotal_verdict w package_name result =
     ([Print (MsgStats m s h u), Print (MsgMalicious package_name)], Inr False)"
  by (simp add: verdict_found)

theorem malicious_blocks_witness:
  "found (found_body 1 5 0 0) 1 5 0 0 \<and> (0::int) < 1 \<and>
   virustotal_verdict sample_world ''evil-pkg'' (found_body 1 5 0 0) =
     ([Print (MsgStats 1 5 0 0), Print (MsgMalicious ''evil-pkg'')], Inr False)"
proof -
  have f: "found (found_body 1 5 0 0) 1 5 0 0"
    by (simp add: found_def found_body_def dict_get_def)
  from malicious_blocks[OF f, of sample_world "''evil-pkg''"] f show ?thesis by simp
qed

text \<open>
  C2: a response of shape \<open>Found\<close> with no malicious and a positive suspicious count
  gives the warning that carries the suspicious count, and the operator is then asked
  whether to install anyway: the answer, or the error of reading it, decides what the
  stage returns.
\<close>

theorem suspicious_warns:
  "found result 0 s h u \<Longrightarrow> 0 < s \<Longrightarrow>
   virustotal_verdict w package_name result =
     (case input w InstallAnyway of
        Inl e \<Rightarrow>
          ([Print (MsgStats 0 s h u), Print (MsgSuspicious s package_name),
            Input InstallAnyway], Inl e)
      | Inr answer \<Rightarrow>
          if py_lower (py_strip answer) = ''y''
          then ([Print (MsgStats 0 s h u), Print (MsgSuspicious s package_name),
                 Input InstallAnyway, Print MsgProceedSuspicious], Inr True)
          else ([Print (MsgStats 0 s h u), Print (MsgSuspicious s package_name),
                 Input InstallAnyway, Print MsgCancelled], Inr False))"
  by (cases "input w InstallAnyway") (simp_all add: verdict_found ask_answer ask_error)

theorem suspicious_warns_witness:
  "found (found_body 0 5 60 7) 0 5 60 7 \<and> (0::int) < 5 \<and>
   virustotal_verdict sample_world ''left-pad'' (found_body 0 5 60 7) =
     ([Print (MsgStats 0 5 60 7), Print (MsgSuspicious 5 ''left-pad''),
       Input InstallAnyway, Print MsgProceedSuspicious], Inr True)"
proof -
  have f: "found (found_body 0 5 60 7) 0 5 60 7"
    by (simp add: found_def found_body_def dict_get_def)
  have y: "py_lower (py_strip ''y'') = ''y''" by code_simp
  from suspicious_warns[OF f, of sample_world "''left-pad''"] f y show ?thesis
    by (simp add: sample_world_def)
qed

text \<open>
  C3: a response of shape \<open>Found\<close> with neither malicious nor suspicious detections is
  allowed: the verdict stage prints the statistics and the clean message and returns
  \<^verbatim>\<open>True\<close>; the scan that reached this response returns \<^verbatim>\<open>True\<close> and has put no prompt
  to the operator.
\<close>

theorem clean_allows:
  assumes "found result 0 0 h u"
  shows "virustotal_verdict w package_name result =
           ([Print (MsgStats 0 0 h u), Print MsgClean], Inr True)
         \<and> (reputation w package_name manager_name = Some result \<longrightarrow>
              snd (virustotal_scan w package_name manager_name) = True
              \<and> prompts (fst (virustotal_scan w package_name manager_name)) = [])"
proof (intro conjI impI)
  show v: "virustotal_verdict w package_name result =
           ([Print (MsgStats 0 0 h u), Print MsgClean], Inr True)"
    using assms by (simp add: verdict_found)
  assume rep: "reputation w package_name manager_name = Some result"
  from scan_body_reputation[OF rep] obtain pre where
    pre: "prompts pre = []"
    and body: "scan_body w package_name manager_name =
       (pre @ fst (virustotal_verdict w package_name result),
        snd (virustotal_verdict w package_name result))" by blast
  from body v have scan: "virustotal_scan w package_name manager_name =
       (pre @ [Print (MsgStats 0 0 h u), Print MsgClean], True)"
    by (simp add: scan_of_body)
  then show "snd (virustotal_scan w package_name manager_name) = True"
    by simp
  from scan pre show "prompts (fst (virustotal_scan w package_name manager_name)) = []"
    by (simp add: prompts_append) (simp add: prompts_def)
qed

theorem clean_allows_witness:
  "found (found_body 0 0 70 0) 0 0 70 0
   \<and> reputation (found_world 0 0 70 0 ''n'') ''left-pad'' (Some ''pip3'') = Some (found_body 0 0 70 0)
   \<and> virustotal_verdict (found_world 0 0 70 0 ''n'') ''left-pad'' (found_body 0 0 70 0) =
       ([Print (MsgStats 0 0 70 0), Print MsgClean], Inr True)
   \<and> snd (virustotal_scan (found_world 0 0 70 0 ''n'') ''left-pad'' (Some ''pip3'')) = True
   \<and> prompts (fst (virustotal_scan (found_world 0 0 70 0 ''n'') ''left-pad'' (Some ''pip3''))) = []"
proof -
  have r: "reputation (found_world 0 0 70 0 ''n'') ''left-pad'' (Some ''pip3'')
             = Some (found_body 0 0 70 0)"
    by (simp add: run_defs io_simps)
  have f: "found (found_body 0 0 70 0) 0 0 70 0"
    by (simp add: found_def found_body_def dict_get_def)
  from clean_allows[OF f, of "found_world 0 0 70 0 ''n''" "''left-pad''" "Some ''pip3''"] r f
  show ?thesis by simp
qed

text \<open>
  C4: a response of the reputation service whose status is not 200 becomes the dict
  \<^verbatim>\<open>{"error": status, "message": text}\<close>, and on it the verdict stage neither allows nor
  blocks by itself: it prints the code and the message and asks the operator, whose
  answer decides. The stage tests \<^verbatim>\<open>result.get('error')\<close> for truth, which is why the
  status is taken to differ from 0: an HTTP status has three digits.
\<close>

theorem service_error_indeterminate:
  assumes "get_virustotal w (''https://www.virustotal.com/api/v3/files/'' @ file_hash) api_key = Inr resp"
    and "status_code resp \<noteq> 200"
    and "status_code resp \<noteq> 0"
  shows "scan_file_hash_with_virustotal w file_hash api_key =
           ([GetVirusTotal (''https://www.virustotal.com/api/v3/files/'' @ file_hash)],
            Inr (JDict [(''error'', JInt (status_code resp)), (''message'', JStr (resp_text resp))]))
         \<and> virustotal_verdict w package_name
             (JDict [(''error'', JInt (status_code resp)), (''message'', JStr (resp_text resp))]) =
           (case input w ProceedAnyway of
              Inl e \<Rightarrow>
                ([Print (MsgVtError (JInt (status_code resp)) (JStr (resp_text resp))),
                  Input ProceedAnyway], Inl e)
            | Inr answer \<Rightarrow>
                if py_lower (py_strip answer) = ''y''
                then ([Print (MsgVtError (JInt (status_code resp)) (JStr (resp_text resp))),
                       Input ProceedAnyway, Print MsgProceedError], Inr True)
                else ([Print (MsgVtError (JInt (status_code resp)) (JStr (resp_text resp))),
                       Input ProceedAnyway, Print MsgCancelled], Inr False))"
proof -
  have "scan_file_hash_with_virustotal w file_hash api_key =
           ([GetVirusTotal (''https://www.virustotal.com/api/v3/files/'' @ file_hash)],
            Inr (JDict [(''error'', JInt (status_code resp)), (''message'', JStr (resp_text resp))]))"
    using assms(1,2) by (simp add: scan_file_hash_with_virustotal_def io_simps)
  moreover have "virustotal_verdict w package_name
             (JDict [(''error'', JInt (status_code resp)), (''message'', JStr (resp_text resp))]) =
           (case input w ProceedAnyway of
              Inl e \<Rightarrow>
                ([Print (MsgVtError (JInt (status_code resp)) (JStr (resp_text resp))),
                  Input ProceedAnyway], Inl e)
            | Inr answer \<Rightarrow>
                if py_lower (py_strip answer) = ''y''
                then ([Print (MsgVtError (JInt (status_code resp)) (JStr (resp_text resp))),
                       Input ProceedAnyway, Print MsgProceedError], Inr True)
                else ([Print (MsgVtError (JInt (status_code resp)) (JStr (resp_text resp))),
                       Input ProceedAnyway, Print MsgCancelled], Inr False))"
    using assms(3)
    by (cases "input w ProceedAnyway") (simp_all add: verdict_error ask_answer ask_error)
  ultimately show ?thesis by simp
qed

theorem service_error_indeterminate_witness:
  "scan_file_hash_with_virustotal (status_world 503 ''busy'' ''no'') ''9f86d081884c7d65'' ''k'' =
     ([GetVirusTotal ''https://www.virustotal.com/api/v3/files/9f86d081884c7d65''],
      Inr (JDict [(''error'', JInt 503), (''message'', JStr ''busy'')]))
   \<and> virustotal_verdict (status_world 503 ''busy'' ''no'') ''left-pad''
        (JDict [(''error'', JInt 503), (''message'', JStr ''busy'')]) =
     ([Print (MsgVtError (JInt 503) (JStr ''busy'')), Input ProceedAnyway, Print MsgCancelled],
      Inr False)"
proof -
  let ?resp = "\<lparr>status_code = 503, resp_text = ''busy'', body_json = Inl JSONDecodeError\<rparr>"
  have g: "get_virustotal (status_world 503 ''busy'' ''no'')
             (''https://www.virustotal.com/api/v3/files/'' @ ''9f86d081884c7d65'') ''k'' = Inr ?resp"
    by (simp add: status_world_def sample_world_def)
  have c: "status_code ?resp \<noteq> 200" "status_code ?resp \<noteq> 0" by simp_all
  have n: "py_lower (py_strip ''no'') \<noteq> ''y''" by code_simp
  have i: "input (status_world 503 ''busy'' ''no'') ProceedAnyway = Inr ''no''"
    by (simp add: status_world_def sample_world_def)
  from service_error_indeterminate[OF g c, of "''left-pad''"] n i show ?thesis by simp
qed

section \<open>The override gate\<close>

text \<open>
  C5, as amended: when the response that reaches the verdict stage has a positive
  malicious count, the scan presents the reason (its last event is the MALICIOUS
  message), puts no prompt to the operator, and returns \<^verbatim>\<open>False\<close>: the operator cannot
  force the install through.
\<close>

theorem malicious_never_prompts:
  assumes "reputation w package_name manager_name = Some result"
    and "found result m s h u"
    and "0 < m"
  shows "snd (virustotal_scan w package_name manager_name) = False
         \<and> prompts (fst (virustotal_scan w package_name manager_name)) = []
         \<and> last (fst (virustotal_scan w package_name manager_name)) = Print (MsgMalicious package_name)"
proof -
  have v: "virustotal_verdict w package_name result =
           ([Print (MsgStats m s h u), Print (MsgMalicious package_name)], Inr False)"
    using assms(2,3) by (simp add: verdict_found)
  from scan_body_reputation[OF assms(1)] obtain pre where
    pre: "prompts pre = []"
    and body: "scan_body w package_name manager_name =
       (pre @ fst (virustotal_verdict w package_name result),
        snd (virustotal_verdict w package_name result))" by blast
  from body v have "virustotal_scan w package_name manager_name =
       (pre @ [Print (MsgStats m s h u), Print (MsgMalicious package_name)], False)"
    by (simp add: scan_of_body)
  with pre show ?thesis by (simp add: prompts_append) (simp add: prompts_def)
qed

theorem malicious_never_prompts_witness:
  "reputation (found_world 3 0 0 0 ''y'') ''evil-pkg'' (Some ''pip3'') = Some (found_body 3 0 0 0)
   \<and> found (found_body 3 0 0 0) 3 0 0 0 \<and> (0::int) < 3
   \<and> snd (virustotal_scan (found_world 3 0 0 0 ''y'') ''evil-pkg'' (Some ''pip3'')) = False
   \<and> prompts (fst (virustotal_scan (found_world 3 0 0 0 ''y'') ''evil-pkg'' (Some ''pip3''))) = []"
proof -
  have r: "reputation (found_world 3 0 0 0 ''y'') ''evil-pkg'' (Some ''pip3'')
             = Some (found_body 3 0 0 0)"
    by (simp add: run_defs io_simps)
  have f: "found (found_body 3 0 0 0) 3 0 0 0"
    by (simp add: found_def found_body_def dict_get_def)
  from malicious_never_prompts[OF r f] r f show ?thesis by simp
qed

text \<open>
  C5 as stated, that a block asks the operator for a confirmation and lets an explicit
  override proceed, fails: with three malicious detections and an operator who would
  answer \<^verbatim>\<open>y\<close> to either prompt, the trace of the scan holds no \<open>Input\<close> and the scan
  returns \<^verbatim>\<open>False\<close>.
\<close>

theorem malicious_override_counterexample:
  "input (found_world 3 0 0 0 ''y'') ProceedAnyway = Inr ''y''
   \<and> input (found_world 3 0 0 0 ''y'') InstallAnyway = Inr ''y''
   \<and> virustotal_scan (found_world 3 0 0 0 ''y'') ''evil-pkg'' (Some ''pip3'') =
     ([Print (MsgPreparing ''evil-pkg'' ''pip3''),
       Mkdtemp ''/tmp/pkgscan_a1'',
       Run [''pip3'', ''download'', ''--no-deps'', ''evil-pkg'', ''-d'', ''/tmp/pkgscan_a1''],
       Rmtree ''/tmp/pkgscan_a1'' True,
       Print (MsgHash ''9f86d081884c7d65''),
       Print MsgQuerying,
       Setenv ''VT_API_KEY'' ''020700591df72dd76c943a1306d9de7a984cf4afbd5b3f868c723cf64f2413db'',
       GetVirusTotal ''https://www.virustotal.com/api/v3/files/9f86d081884c7d65'',
       Print (MsgStats 3 0 0 0),
       Print (MsgMalicious ''evil-pkg'')],
      False)"
  by code_simp

text \<open>
  C9, as amended: at each of the three prompts (no artifact, suspicious finding, service
  error) the scan asks once and returns \<^verbatim>\<open>True\<close> exactly when the answer, stripped of
  surrounding whitespace and lower-cased, is \<^verbatim>\<open>y\<close>; every other answer, the empty one
  included, returns \<^verbatim>\<open>False\<close>.
\<close>

theorem prompt_proceeds_only_on_y:
  "(no_artifact w package_name manager_name \<and> input w ProceedAnyway = Inr answer \<longrightarrow>
      snd (virustotal_scan w package_name manager_name) = (py_lower (py_strip answer) = ''y'')
      \<and> prompts (fst (virustotal_scan w package_name manager_name)) = [ProceedAnyway])
   \<and> (reputation w package_name manager_name = Some result \<and> found result 0 s h u \<and> 0 < s
        \<and> input w InstallAnyway = Inr answer \<longrightarrow>
      snd (virustotal_scan w package_name manager_name) = (py_lower (py_strip answer) = ''y'')
      \<and> prompts (fst (virustotal_scan w package_name manager_name)) = [InstallAnyway])
   \<and> (reputation w package_name manager_name
          = Some (JDict [(''error'', JInt code), (''message'', JStr message)])
        \<and> code \<noteq> 0 \<and> input w ProceedAnyway = Inr answer \<longrightarrow>
      snd (virustotal_scan w package_name manager_name) = (py_lower (py_strip answer) = ''y'')
      \<and> prompts (fst (virustotal_scan w package_name manager_name)) = [ProceedAnyway])"
proof (intro conjI impI; elim conjE)
  assume na: "no_artifact w package_name manager_name"
    and i: "input w ProceedAnyway = Inr answer"
  from scan_body_no_artifact[OF na] obtain pre where pre: "prompts pre = []"
    and body: "scan_body w package_name manager_name =
       (pre @ fst (ask w ProceedAnyway MsgProceedNoHash),
        snd (ask w ProceedAnyway MsgProceedNoHash))" by blast
  show "snd (virustotal_scan w package_name manager_name) = (py_lower (py_strip answer) = ''y'')"
    using body by (simp add: ask_answer[OF i] scan_snd)
  show "prompts (fst (virustotal_scan w package_name manager_name)) = [ProceedAnyway]"
    using body pre by (simp add: ask_answer[OF i] scan_fst prompts_append) (simp add: prompts_def)
next
  assume rep: "reputation w package_name manager_name = Some result"
    and f: "found result 0 s h u" and s: "0 < s"
    and i: "input w InstallAnyway = Inr answer"
  from scan_body_reputation[OF rep] obtain pre where pre: "prompts pre = []"
    and body: "scan_body w package_name manager_name =
       (pre @ fst (virustotal_verdict w package_name result),
        snd (virustotal_verdict w package_name result))" by blast
  show "snd (virustotal_scan w package_name manager_name) = (py_lower (py_strip answer) = ''y'')"
    using body s by (simp add: verdict_found[OF f] ask_answer[OF i] scan_snd)
  show "prompts (fst (virustotal_scan w package_name manager_name)) = [InstallAnyway]"
    using body pre s
    by (simp add: verdict_found[OF f] ask_answer[OF i] scan_fst prompts_append)
       (simp add: prompts_def)
next
  assume rep: "reputation w package_name manager_name
          = Some (JDict [(''error'', JInt code), (''message'', JStr message)])"
    and c: "code \<noteq> 0" and i: "input w ProceedAnyway = Inr answer"
  from scan_body_reputation[OF rep] obtain pre where pre: "prompts pre = []"
    and body: "scan_body w package_name manager_name =
       (pre @ fst (virustotal_verdict w package_name
                     (JDict [(''error'', JInt code), (''message'', JStr message)])),
        snd (virustotal_verdict w package_name
                     (JDict [(''error'', JInt code), (''message'', JStr message)])))" by blast
  show "snd (virustotal_scan w package_name manager_name) = (py_lower (py_strip answer) = ''y'')"
    using body by (simp add: verdict_error[OF c] ask_answer[OF i] scan_snd)
  show "prompts (fst (virustotal_scan w package_name manager_name)) = [ProceedAnyway]"
    using body pre
    by (simp add: verdict_error[OF c] ask_answer[OF i] scan_fst prompts_append)
       (simp add: prompts_def)
qed

theorem prompt_proceeds_only_on_y_witness:
  "(no_artifact (no_artifact_world '' Y '') ''left-pad'' None
      \<and> snd (virustotal_scan (no_artifact_world '' Y '') ''left-pad'' None) = True)
   \<and> (reputation (found_world 0 5 0 0 ''n'') ''left-pad'' None = Some (found_body 0 5 0 0)
      \<and> found (found_body 0 5 0 0) 0 5 0 0
      \<and> snd (virustotal_scan (found_world 0 5 0 0 ''n'') ''left-pad'' None) = False)
   \<and> (reputation (status_world 503 ''busy'' ''y'') ''left-pad'' None
         = Some (JDict [(''error'', JInt 503), (''message'', JStr ''busy'')])
      \<and> snd (virustotal_scan (status_world 503 ''busy'' ''y'') ''left-pad'' None) = True)"
proof -
  have a: "no_artifact (no_artifact_world '' Y '') ''left-pad'' None"
    by (simp add: run_defs io_simps)
  have ai: "input (no_artifact_world '' Y '') ProceedAnyway = Inr '' Y ''"
    by (simp add: no_artifact_world_def sample_world_def)
  have ay: "py_lower (py_strip '' Y '') = ''y''" by code_simp
  have b: "reputation (found_world 0 5 0 0 ''n'') ''left-pad'' None = Some (found_body 0 5 0 0)"
    by (simp add: run_defs io_simps)
  have bf: "found (found_body 0 5 0 0) 0 5 0 0"
    by (simp add: found_def found_body_def dict_get_def)
  have bi: "input (found_world 0 5 0 0 ''n'') InstallAnyway = Inr ''n''"
    by (simp add: found_world_def sample_world_def)
  have bn: "py_lower (py_strip ''n'') \<noteq> ''y''" by code_simp
  have c: "reputation (status_world 503 ''busy'' ''y'') ''left-pad'' None
         = Some (JDict [(''error'', JInt 503), (''message'', JStr ''busy'')])"
    by (simp add: run_defs io_simps)
  have ci: "input (status_world 503 ''busy'' ''y'') ProceedAnyway = Inr ''y''"
    by (simp add: status_world_def sample_world_def)
  have cy: "py_lower (py_strip ''y'') = ''y''" by code_simp
  have "snd (virustotal_scan (no_artifact_world '' Y '') ''left-pad'' None) = True"
    using prompt_proceeds_only_on_y[THEN conjunct1, rule_format, OF conjI, OF a ai] ay by simp
  moreover have "snd (virustotal_scan (found_world 0 5 0 0 ''n'') ''left-pad'' None) = False"
    using prompt_proceeds_only_on_y[THEN conjunct2, THEN conjunct1, rule_format,
            of "found_world 0 5 0 0 ''n''" "''left-pad''" None "found_body 0 5 0 0" 5 0 0 "''n''"]
      b bf bi bn by simp
  moreover have "snd (virustotal_scan (status_world 503 ''busy'' ''y'') ''left-pad'' None) = True"
    using prompt_proceeds_only_on_y[THEN conjunct2, THEN conjunct2, rule_format,
            of "status_world 503 ''busy'' ''y''" "''left-pad''" None 503 "''busy''" "''y''"]
      c ci cy by simp
  ultimately show ?thesis using a b bf c by simp
qed

text \<open>
  C9 as stated, that an answer which does not clearly decline proceeds, fails: the empty
  answer cancels at the suspicious prompt, at the service-error prompt and at the
  no-artifact prompt, and so does the answer \<^verbatim>\<open>yes\<close>.
\<close>

theorem permissive_default_counterexample:
  "virustotal_scan (found_world 0 5 0 0 []) ''left-pad'' (Some ''pip3'') =
     ([Print (MsgPreparing ''left-pad'' ''pip3''),
       Mkdtemp ''/tmp/pkgscan_a1'',
       Run [''pip3'', ''download'', ''--no-deps'', ''left-pad'', ''-d'', ''/tmp/pkgscan_a1''],
       Rmtree ''/tmp/pkgscan_a1'' True,
       Print (MsgHash ''9f86d081884c7d65''),
       Print MsgQuerying,
       Setenv ''VT_API_KEY'' ''020700591df72dd76c943a1306d9de7a984cf4afbd5b3f868c723cf64f2413db'',
       GetVirusTotal ''https://www.virustotal.com/api/v3/files/9f86d081884c7d65'',
       Print (MsgStats 0 5 0 0),
       Print (MsgSuspicious 5 ''left-pad''),
       Input InstallAnyway,
       Print MsgCancelled],
      False)
   \<and> snd (virustotal_scan (found_world 0 5 0 0 ''yes'') ''left-pad'' (Some ''pip3'')) = False
   \<and> snd (virustotal_scan (status_world 503 ''busy'' []) ''left-pad'' (Some ''pip3'')) = False
   \<and> snd (virustotal_scan (no_artifact_world []) ''left-pad'' (Some ''pip3'')) = False"
  by code_simp

text \<open>
  C10: an exception that leaves any stage of the scan is caught by the outer handler,
  which reports it and returns \<^verbatim>\<open>True\<close>. The first part is the handler itself; the other
  three name the stages: the resolver, the hashing or the query raised (no response
  reached the verdict stage although an artifact was not reported missing), the verdict
  stage raised while reading the response or asking, and the no-artifact prompt raised.
\<close>

theorem scan_fails_open:
  "(snd (scan_body w package_name manager_name) = Inl ex \<longrightarrow>
      virustotal_scan w package_name manager_name =
        (fst (scan_body w package_name manager_name) @ [Print (MsgSkipped ex)], True))
   \<and> (reputation w package_name manager_name = None
        \<and> \<not> no_artifact w package_name manager_name \<longrightarrow>
      snd (virustotal_scan w package_name manager_name) = True)
   \<and> (reputation w package_name manager_name = Some result
        \<and> snd (virustotal_verdict w package_name result) = Inl ex \<longrightarrow>
      snd (virustotal_scan w package_name manager_name) = True)
   \<and> (no_artifact w package_name manager_name \<and> input w ProceedAnyway = Inl ex \<longrightarrow>
      snd (virustotal_scan w package_name manager_name) = True)"
proof (intro conjI impI; (elim conjE)?)
  assume "snd (scan_body w package_name manager_name) = Inl ex"
  then show "virustotal_scan w package_name manager_name =
        (fst (scan_body w package_name manager_name) @ [Print (MsgSkipped ex)], True)"
    by (cases "scan_body w package_name manager_name") (simp add: virustotal_scan_def)
next
  assume none: "reputation w package_name manager_name = None"
    and art: "\<not> no_artifact w package_name manager_name"
  obtain t1 r1 where dl:
    "download_package_and_get_hash w package_name (str_or manager_name ''pip3'') = (t1, r1)"
    by (cases "download_package_and_get_hash w package_name (str_or manager_name ''pip3'')")
  obtain t2 key where ak: "get_virustotal_api_key w = (t2, Inr key)"
    using api_key_returns[of w] by (cases "get_virustotal_api_key w") auto
  show "snd (virustotal_scan w package_name manager_name) = True"
  proof (cases r1)
    case (Inl e)
    then show ?thesis by (simp add: scan_snd scan_body_def dl io_simps)
  next
    case (Inr fh)
    with art dl have fh: "truthy_opt fh" by (simp add: no_artifact_def)
    obtain t3 r3 where q:
      "scan_file_hash_with_virustotal w (str_or fh []) key = (t3, r3)"
      by (cases "scan_file_hash_with_virustotal w (str_or fh []) key")
    from none dl Inr fh ak q obtain e where "r3 = Inl e"
      by (cases r3) (simp_all add: reputation_def)
    then show ?thesis
      by (simp add: scan_snd scan_body_def dl Inr fh ak q io_simps)
  qed
next
  assume rep: "reputation w package_name manager_name = Some result"
    and v: "snd (virustotal_verdict w package_name result) = Inl ex"
  from scan_body_reputation[OF rep] v
  show "snd (virustotal_scan w package_name manager_name) = True"
    by (auto simp: scan_snd)
next
  assume na: "no_artifact w package_name manager_name"
    and i: "input w ProceedAnyway = Inl ex"
  from scan_body_no_artifact[OF na]
  show "snd (virustotal_scan w package_name manager_name) = True"
    by (auto simp: scan_snd ask_error[OF i])
qed

theorem scan_fails_open_witness:
  "(snd (scan_body no_python_world ''left-pad'' None) = Inl FileNotFoundError
      \<and> reputation no_python_world ''left-pad'' None = None
      \<and> \<not> no_artifact no_python_world ''left-pad'' None
      \<and> snd (virustotal_scan no_python_world ''left-pad'' None) = True
      \<and> virustotal_scan no_python_world ''left-pad'' None =
          (fst (scan_body no_python_world ''left-pad'' None)
             @ [Print (MsgSkipped FileNotFoundError)], True))
   \<and> (reputation malformed_world ''left-pad'' None
         = Some (JDict [(''data'', JDict [(''attributes'', JList [JInt 1])])])
      \<and> snd (virustotal_verdict malformed_world ''left-pad''
                (JDict [(''data'', JDict [(''attributes'', JList [JInt 1])])]))
           = Inl AttributeError
      \<and> snd (virustotal_scan malformed_world ''left-pad'' None) = True)
   \<and> (no_artifact eof_world ''left-pad'' None
      \<and> input eof_world ProceedAnyway = Inl EOFError
      \<and> snd (virustotal_scan eof_world ''left-pad'' None) = True)"
proof -
  have a: "snd (scan_body no_python_world ''left-pad'' None) = Inl FileNotFoundError"
    by code_simp
  have a1: "reputation no_python_world ''left-pad'' None = None" by code_simp
  have a2: "\<not> no_artifact no_python_world ''left-pad'' None" by code_simp
  have b: "reputation malformed_world ''left-pad'' None
         = Some (JDict [(''data'', JDict [(''attributes'', JList [JInt 1])])])"
    by code_simp
  have b1: "snd (virustotal_verdict malformed_world ''left-pad''
                (JDict [(''data'', JDict [(''attributes'', JList [JInt 1])])]))
           = Inl AttributeError"
    by code_simp
  have c: "no_artifact eof_world ''left-pad'' None" by code_simp
  have c1: "input eof_world ProceedAnyway = Inl EOFError" by code_simp
  note t = scan_fails_open
  have "virustotal_scan no_python_world ''left-pad'' None =
          (fst (scan_body no_python_world ''left-pad'' None)
             @ [Print (MsgSkipped FileNotFoundError)], True)"
    using t[THEN conjunct1, rule_format, OF a] .
  moreover have "snd (virustotal_scan no_python_world ''left-pad'' None) = True"
    using t[THEN conjunct2, THEN conjunct1, rule_format, OF conjI, OF a1 a2] .
  moreover have "snd (virustotal_scan malformed_world ''left-pad'' None) = True"
    using t[THEN conjunct2, THEN conjunct2, THEN conjunct1, rule_format, OF conjI, OF b b1] .
  moreover have "snd (virustotal_scan eof_world ''left-pad'' None) = True"
    using t[THEN conjunct2, THEN conjunct2, THEN conjunct2, rule_format, OF conjI, OF c c1] .
  ultimately show ?thesis using a a1 a2 b b1 c c1 by simp
qed

section \<open>The resolver\<close>

text \<open>
  C6, as amended: when the metadata that \<^verbatim>\<open>npm view\<close> returns embeds a non-empty
  \<^verbatim>\<open>dist.tarball\<close>, the npm resolution never queries the registry's latest-version
  endpoint, and the only URL it downloads is the embedded one, once (not at all when the
  scratch directory could not be created): the first step skips the second and the third.
  The fourth and the fifth are not skipped. With the scratch directory created, the
  subprocesses of the call are \<^verbatim>\<open>npm config get registry\<close>, \<^verbatim>\<open>npm view\<close> and, exactly when
  the download of the embedded URL gives no hash, \<^verbatim>\<open>npm pack\<close>; the call returns the hash
  of the download when there is one and what the pack fallback returns otherwise.
\<close>

theorem direct_url_skips_latest:
  assumes "snd (get_npm_metadata w package_name) = Inr meta"
    and "item (item meta ''dist'') ''tarball'' = JStr url"
    and "url \<noteq> []"
  shows "latest_queries (fst (download_package_and_get_hash w package_name ''npm'')) = []
         \<and> tarball_downloads (fst (download_package_and_get_hash w package_name ''npm''))
             = (if isl (mkdtemp w) then [] else [url])
         \<and> (mkdtemp w = Inr d
              \<and> snd (download_npm_tarball w url d package_name) = Inr hash_val \<longrightarrow>
            commands (fst (download_package_and_get_hash w package_name ''npm''))
              = [[''npm'', ''config'', ''get'', ''registry''],
                 [''npm'', ''view'', package_name, ''--json'']]
                @ (if truthy_opt hash_val then [] else [[''npm'', ''pack'', package_name]])
            \<and> snd (download_package_and_get_hash w package_name ''npm'')
              = (if truthy_opt hash_val then Inr hash_val
                 else snd (npm_pack_fallback w package_name d)))"
proof (intro conjI impI; (elim conjE)?)
  show "latest_queries (fst (download_package_and_get_hash w package_name ''npm'')) = []"
  proof (cases "mkdtemp w")
    case (Inl e)
    then show ?thesis by (simp add: download_no_scratch latest_queries_def)
  next
    case (Inr d')
    have "resolve_in w package_name ''npm'' d' = resolve_npm w package_name d'"
      by (simp add: resolve_in_def)
    with npm_direct_trace[OF assms, of d'] show ?thesis
      by (simp add: download_shape[OF Inr] observe_simps)
  qed
  show "tarball_downloads (fst (download_package_and_get_hash w package_name ''npm''))
             = (if isl (mkdtemp w) then [] else [url])"
  proof (cases "mkdtemp w")
    case (Inl e)
    then show ?thesis by (simp add: download_no_scratch tarball_downloads_def)
  next
    case (Inr d')
    have "resolve_in w package_name ''npm'' d' = resolve_npm w package_name d'"
      by (simp add: resolve_in_def)
    with npm_direct_trace[OF assms, of d'] show ?thesis
      by (simp add: download_shape[OF Inr] observe_simps Inr)
  qed
next
  assume mk: "mkdtemp w = Inr d"
    and hv: "snd (download_npm_tarball w url d package_name) = Inr hash_val"
  have r: "resolve_in w package_name ''npm'' d = resolve_npm w package_name d"
    by (simp add: resolve_in_def)
  note run = npm_direct_run[OF assms hv]
  show "commands (fst (download_package_and_get_hash w package_name ''npm''))
              = [[''npm'', ''config'', ''get'', ''registry''],
                 [''npm'', ''view'', package_name, ''--json'']]
                @ (if truthy_opt hash_val then [] else [[''npm'', ''pack'', package_name]])"
    by (simp add: download_shape[OF mk] r run(1) commands_simps registry_commands
          metadata_commands tarball_commands pack_commands)
  show "snd (download_package_and_get_hash w package_name ''npm'')
              = (if truthy_opt hash_val then Inr hash_val
                 else snd (npm_pack_fallback w package_name d))"
    by (simp add: download_shape[OF mk] r run(2))
qed

theorem direct_url_skips_latest_witness:
  "snd (get_npm_metadata (npm_world 200) ''left-pad'') =
     Inr (JDict [(''version'', JStr ''1.3.0''),
                 (''dist'', JDict [(''tarball'',
                    JStr ''https://registry.npmjs.org/left-pad/-/left-pad-1.3.0.tgz'')])])
   \<and> latest_queries (fst (download_package_and_get_hash (npm_world 200) ''left-pad'' ''npm'')) = []
   \<and> tarball_downloads (fst (download_package_and_get_hash (npm_world 200) ''left-pad'' ''npm''))
       = [''https://registry.npmjs.org/left-pad/-/left-pad-1.3.0.tgz'']
   \<and> commands (fst (download_package_and_get_hash (npm_world 200) ''left-pad'' ''npm''))
       = [[''npm'', ''config'', ''get'', ''registry''], [''npm'', ''view'', ''left-pad'', ''--json'']]
   \<and> snd (download_package_and_get_hash (npm_world 200) ''left-pad'' ''npm'')
       = Inr (Some ''9f86d081884c7d65'')
   \<and> snd (download_npm_tarball (npm_world 404)
             ''https://registry.npmjs.org/left-pad/-/left-pad-1.3.0.tgz''
             ''/tmp/pkgscan_a1'' ''left-pad'') = Inr None
   \<and> commands (fst (download_package_and_get_hash (npm_world 404) ''left-pad'' ''npm''))
       = [[''npm'', ''config'', ''get'', ''registry''], [''npm'', ''view'', ''left-pad'', ''--json''],
          [''npm'', ''pack'', ''left-pad'']]
   \<and> snd (download_package_and_get_hash (npm_world 404) ''left-pad'' ''npm'')
       = snd (npm_pack_fallback (npm_world 404) ''left-pad'' ''/tmp/pkgscan_a1'')"
proof -
  let ?url = "''https://registry.npmjs.org/left-pad/-/left-pad-1.3.0.tgz''"
  let ?meta = "JDict [(''version'', JStr ''1.3.0''), (''dist'', JDict [(''tarball'', JStr ?url)])]"
  have m: "snd (get_npm_metadata (npm_world 200) ''left-pad'') = Inr ?meta"
    by code_simp
  have m': "snd (get_npm_metadata (npm_world 404) ''left-pad'') = Inr ?meta"
    by code_simp
  have i: "item (item ?meta ''dist'') ''tarball'' = JStr ?url"
    by (simp add: dict_get_def)
  have u: "?url \<noteq> []" by simp
  have k: "mkdtemp (npm_world 200) = Inr ''/tmp/pkgscan_a1''"
    by (simp add: npm_world_def sample_world_def)
  have k': "mkdtemp (npm_world 404) = Inr ''/tmp/pkgscan_a1''"
    by (simp add: npm_world_def sample_world_def)
  have h: "snd (download_npm_tarball (npm_world 200) ?url ''/tmp/pkgscan_a1'' ''left-pad'')
             = Inr (Some ''9f86d081884c7d65'')"
    by code_simp
  have h': "snd (download_npm_tarball (npm_world 404) ?url ''/tmp/pkgscan_a1'' ''left-pad'')
             = Inr None"
    by code_simp
  from direct_url_skips_latest[OF m i u, of "''/tmp/pkgscan_a1''" "Some ''9f86d081884c7d65''"]
       direct_url_skips_latest[OF m' i u, of "''/tmp/pkgscan_a1''" None]
       m k k' h h'
  show ?thesis by simp
qed

text \<open>
  C6 as stated, that the first step short-circuits the steps two to five, fails: with an
  embedded URL whose download answers 404, the URL is requested (step four) and
  \<^verbatim>\<open>npm pack\<close> is run (step five).
\<close>

theorem direct_url_pack_counterexample:
  "direct_tarball (JDict [(''version'', JStr ''1.3.0''),
                 (''dist'', JDict [(''tarball'',
                    JStr ''https://registry.npmjs.org/left-pad/-/left-pad-1.3.0.tgz'')])])
     = Some ''https://registry.npmjs.org/left-pad/-/left-pad-1.3.0.tgz''
   \<and> get_npm_metadata (npm_world 404) ''left-pad'' =
      ([Run [''npm'', ''view'', ''left-pad'', ''--json'']],
       Inr (JDict [(''version'', JStr ''1.3.0''),
                 (''dist'', JDict [(''tarball'',
                    JStr ''https://registry.npmjs.org/left-pad/-/left-pad-1.3.0.tgz'')])]))
   \<and> download_package_and_get_hash (npm_world 404) ''left-pad'' ''npm'' =
      ([Mkdtemp ''/tmp/pkgscan_a1'',
        Run [''npm'', ''config'', ''get'', ''registry''],
        Run [''npm'', ''view'', ''left-pad'', ''--json''],
        GetTarball ''https://registry.npmjs.org/left-pad/-/left-pad-1.3.0.tgz'',
        Run [''npm'', ''pack'', ''left-pad''],
        Rmtree ''/tmp/pkgscan_a1'' True],
       Inr None)"
  by code_simp

text \<open>
  C7, as amended: when \<^verbatim>\<open>mkdtemp\<close> succeeds, a call of the resolver creates that one
  scratch directory as its first action and attempts one recursive removal, of that
  directory, as its last action, whatever the package, the manager and the path taken
  (a hash, no artifact, or an exception); the directory is gone afterwards when the
  removal succeeded, and is left behind when it failed. A failed removal is swallowed:
  the call returns or raises what the resolution inside the \<^verbatim>\<open>try\<close> returned or raised,
  whether the removal succeeded or not.
\<close>

theorem scratch_created_once_removed_last:
  assumes "mkdtemp w = Inr d"
  shows "created (fst (download_package_and_get_hash w package_name manager)) = [d]
         \<and> removals (fst (download_package_and_get_hash w package_name manager))
             = [(d, \<not> isl (rmtree w d))]
         \<and> hd (fst (download_package_and_get_hash w package_name manager)) = Mkdtemp d
         \<and> last (fst (download_package_and_get_hash w package_name manager))
             = Rmtree d (\<not> isl (rmtree w d))
         \<and> leftover (fst (download_package_and_get_hash w package_name manager))
             = (if isl (rmtree w d) then [d] else [])
         \<and> snd (download_package_and_get_hash w package_name manager)
             = snd (resolve_in w package_name manager d)"
proof -
  let ?body = "fst (resolve_in w package_name manager d)"
  let ?ok = "\<not> isl (rmtree w d)"
  have t: "fst (download_package_and_get_hash w package_name manager)
             = Mkdtemp d # ?body @ [Rmtree d ?ok]"
    by (simp add: download_shape[OF assms])
  have s: "snd (download_package_and_get_hash w package_name manager)
             = snd (resolve_in w package_name manager d)"
    by (simp add: download_shape[OF assms])
  have b: "list_all resolver_event ?body" by (rule resolve_in_events)
  have "created (Mkdtemp d # ?body @ [Rmtree d ?ok]) = [d] @ created ?body"
    by (simp add: created_def)
  then have c: "created (Mkdtemp d # ?body @ [Rmtree d ?ok]) = [d]"
    by (simp add: resolver_created[OF b])
  have "removals (Mkdtemp d # ?body @ [Rmtree d ?ok]) = removals ?body @ [(d, ?ok)]"
    by (simp add: removals_def)
  then have r: "removals (Mkdtemp d # ?body @ [Rmtree d ?ok]) = [(d, ?ok)]"
    by (simp add: resolver_removals[OF b])
  have "leftover (Mkdtemp d # ?body @ [Rmtree d ?ok])
          = scratch_step (foldl scratch_step [d] ?body) (Rmtree d ?ok)"
    by (simp add: leftover_def)
  then have l: "leftover (Mkdtemp d # ?body @ [Rmtree d ?ok]) = (if isl (rmtree w d) then [d] else [])"
    by (simp add: resolver_scratch[OF b])
  from c r l s show ?thesis by (simp add: t)
qed

theorem scratch_created_once_removed_last_witness:
  "mkdtemp (npm_world 404) = Inr ''/tmp/pkgscan_a1''
   \<and> snd (download_package_and_get_hash (npm_world 404) ''left-pad'' ''npm'') = Inr None
   \<and> created (fst (download_package_and_get_hash (npm_world 404) ''left-pad'' ''npm''))
       = [''/tmp/pkgscan_a1'']
   \<and> removals (fst (download_package_and_get_hash (npm_world 404) ''left-pad'' ''npm''))
       = [(''/tmp/pkgscan_a1'', True)]
   \<and> leftover (fst (download_package_and_get_hash (npm_world 404) ''left-pad'' ''npm'')) = []
   \<and> mkdtemp stuck_world = Inr ''/tmp/pkgscan_a1''
   \<and> rmtree stuck_world ''/tmp/pkgscan_a1'' = Inl OSError
   \<and> snd (download_package_and_get_hash stuck_world ''left-pad'' ''pip3'')
       = Inr (Some ''9f86d081884c7d65'')
   \<and> removals (fst (download_package_and_get_hash stuck_world ''left-pad'' ''pip3''))
       = [(''/tmp/pkgscan_a1'', False)]"
proof -
  have m: "mkdtemp (npm_world 404) = Inr ''/tmp/pkgscan_a1''"
    by (simp add: npm_world_def sample_world_def)
  have k: "rmtree (npm_world 404) ''/tmp/pkgscan_a1'' = Inr ()"
    by (simp add: npm_world_def sample_world_def)
  have n: "snd (resolve_in (npm_world 404) ''left-pad'' ''npm'' ''/tmp/pkgscan_a1'') = Inr None"
    by code_simp
  have m': "mkdtemp stuck_world = Inr ''/tmp/pkgscan_a1''"
    by (simp add: stuck_world_def sample_world_def)
  have k': "rmtree stuck_world ''/tmp/pkgscan_a1'' = Inl OSError"
    by (simp add: stuck_world_def sample_world_def)
  have n': "snd (resolve_in stuck_world ''left-pad'' ''pip3'' ''/tmp/pkgscan_a1'')
              = Inr (Some ''9f86d081884c7d65'')"
    by code_simp
  from scratch_created_once_removed_last[OF m, of "''left-pad''" "''npm''"]
       scratch_created_once_removed_last[OF m', of "''left-pad''" "''pip3''"]
       m k n m' k' n'
  show ?thesis by simp
qed

text \<open>
  C7 as stated, that the scratch directory is removed before the call returns on every
  path, fails: where \<^verbatim>\<open>shutil.rmtree\<close> raises, the call returns the hash and the directory
  is still there.
\<close>

theorem scratch_left_counterexample:
  "download_package_and_get_hash stuck_world ''left-pad'' ''pip3'' =
     ([Mkdtemp ''/tmp/pkgscan_a1'',
       Run [''pip3'', ''download'', ''--no-deps'', ''left-pad'', ''-d'', ''/tmp/pkgscan_a1''],
       Rmtree ''/tmp/pkgscan_a1'' False],
      Inr (Some ''9f86d081884c7d65''))
   \<and> leftover (fst (download_package_and_get_hash stuck_world ''left-pad'' ''pip3''))
       = [''/tmp/pkgscan_a1'']"
  by code_simp

text \<open>
  C8: the pip resolution raises past the resolver. \<^verbatim>\<open>_download_pip_artifact\<close> calls
  \<^verbatim>\<open>subprocess.run\<close> outside any handler, so a missing executable leaves it and
  \<^verbatim>\<open>download_package_and_get_hash\<close> as \<^verbatim>\<open>FileNotFoundError\<close>: here \<^verbatim>\<open>pip3 download\<close>
  exits with 1 and there is no \<^verbatim>\<open>python\<close>. With no tool at all the pip resolution
  raises where the npm resolution, whose helpers catch, returns \<^verbatim>\<open>None\<close>. The scan then
  takes the exception for an unexpected error and returns \<^verbatim>\<open>True\<close> without asking.
\<close>

theorem pip_resolver_raises:
  "download_package_and_get_hash no_python_world ''left-pad'' ''pip3'' =
     ([Mkdtemp ''/tmp/pkgscan_a1'',
       Run [''pip3'', ''download'', ''--no-deps'', ''left-pad'', ''-d'', ''/tmp/pkgscan_a1''],
       Run [''python'', ''-m'', ''pip'', ''download'', ''--no-deps'', ''left-pad'', ''-d'',
            ''/tmp/pkgscan_a1''],
       Rmtree ''/tmp/pkgscan_a1'' True],
      Inl FileNotFoundError)
   \<and> snd (download_package_and_get_hash no_tools_world ''left-pad'' ''pip3'')
       = Inl FileNotFoundError
   \<and> snd (download_package_and_get_hash no_tools_world ''left-pad'' ''npm'') = Inr None
   \<and> virustotal_scan no_python_world ''left-pad'' (Some ''pip3'') =
     ([Print (MsgPreparing ''left-pad'' ''pip3''),
       Mkdtemp ''/tmp/pkgscan_a1'',
       Run [''pip3'', ''download'', ''--no-deps'', ''left-pad'', ''-d'', ''/tmp/pkgscan_a1''],
       Run [''python'', ''-m'', ''pip'', ''download'', ''--no-deps'', ''left-pad'', ''-d'',
            ''/tmp/pkgscan_a1''],
       Rmtree ''/tmp/pkgscan_a1'' True,
       Print (MsgSkipped FileNotFoundError)],
      True)"
  by code_simp

end
